theory Spec2Isabelle
  imports Complex_Main
begin

section \<open>Path handling used by the registration scripts\<close>

text \<open>
  The scripts build their default output names with \<^verbatim>\<open>os.path.splitext\<close> and
  \<^verbatim>\<open>os.path.join\<close>.  Both are modelled after the POSIX flavour of the Python
  standard library (separator \<^verbatim>\<open>/\<close>, extension separator \<^verbatim>\<open>.\<close>), which is the
  platform the hard-coded paths of the repository belong to.
\<close>

type_synonym path = string

text \<open>\<^verbatim>\<open>str.rfind\<close> for a one-character needle: the highest index, or -1.\<close>

primrec rfind_from :: "string \<Rightarrow> char \<Rightarrow> int \<Rightarrow> int \<Rightarrow> int" where
  "rfind_from [] c i found = found"
| "rfind_from (x # xs) c i found = rfind_from xs c (i + 1) (if x = c then i else found)"

definition rfind :: "string \<Rightarrow> char \<Rightarrow> int" where
  "rfind p c = rfind_from p c 0 (- 1)"

text \<open>
  The loop of \<^verbatim>\<open>genericpath._splitext\<close> that skips the leading dots of the file name:
  \<^verbatim>\<open>
      while filenameIndex < dotIndex:
          if p[filenameIndex:filenameIndex+1] != extsep:
              return p[:dotIndex], p[dotIndex:]
          filenameIndex += 1
      return p, p[:0]
  \<close>
\<close>

function splitext_loop :: "string \<Rightarrow> nat \<Rightarrow> nat \<Rightarrow> string \<times> string" where
  "splitext_loop p dotIndex filenameIndex =
     (if filenameIndex < dotIndex then
        (if take 1 (drop filenameIndex p) \<noteq> ''.'' then (take dotIndex p, drop dotIndex p)
         else splitext_loop p dotIndex (filenameIndex + 1))
      else (p, ''''))"
  by pat_completeness auto
termination
  by (relation "measure (\<lambda>(p, dotIndex, filenameIndex). dotIndex - filenameIndex)") auto

definition splitext :: "path \<Rightarrow> string \<times> string" where
  "splitext p =
     (let sepIndex = rfind p CHR ''/'';
          dotIndex = rfind p CHR ''.''
      in if dotIndex > sepIndex
         then splitext_loop p (nat dotIndex) (nat (sepIndex + 1))
         else (p, ''''))"

text \<open>\<^verbatim>\<open>posixpath.join(a, b)\<close> with one component after the first.\<close>

definition join :: "path \<Rightarrow> path \<Rightarrow> path" where
  "join a b =
     (if take 1 b = ''/'' then b
      else if a = '''' \<or> last a = CHR ''/'' then a @ b
      else a @ ''/'' @ b)"


section \<open>The SimpleITK objects the scripts handle\<close>

datatype PixelIDValue = sitkUInt8 | sitkFloat32

datatype InterpolatorEnum = sitkLinear | sitkNearestNeighbor

text \<open>
  An image in memory: its pixel type, its grid (size per axis, origin, spacing and
  direction matrix) and its voxel values by index.  Intensities are exact reals.
\<close>

record Image =
  PixelID :: PixelIDValue
  Size :: "nat list"
  Origin :: "real list"
  Spacing :: "real list"
  Direction :: "real list list"
  Pixel :: "nat list \<Rightarrow> real"

datatype TransformKind = Euler3DTransform | AffineTransform

text \<open>A centred matrix transform: \<open>x \<mapsto> Matrix (x - Center) + Center + Translation\<close>.\<close>

record Transform =
  Kind :: TransformKind
  Matrix :: "real list list"
  Center :: "real list"
  Translation :: "real list"

definition identity_matrix :: "nat \<Rightarrow> real list list" where
  "identity_matrix n = map (\<lambda>i. map (\<lambda>j. if i = j then 1 else 0) [0..<n]) [0..<n]"

text \<open>\<^verbatim>\<open>sitk.Euler3DTransform()\<close> and \<^verbatim>\<open>sitk.AffineTransform(n)\<close>: the identity of each kind.\<close>

definition new_Euler3DTransform :: Transform where
  "new_Euler3DTransform =
     \<lparr>Kind = Euler3DTransform, Matrix = identity_matrix 3,
      Center = replicate 3 0, Translation = replicate 3 0\<rparr>"

definition new_AffineTransform :: "nat \<Rightarrow> Transform" where
  "new_AffineTransform n =
     \<lparr>Kind = AffineTransform, Matrix = identity_matrix n,
      Center = replicate n 0, Translation = replicate n 0\<rparr>"

datatype MetricKind = MattesMutualInformation nat

datatype SamplingStrategy = NONE | REGULAR | RANDOM

text \<open>Learning rate, minimum step, number of iterations, gradient magnitude tolerance.\<close>

datatype OptimizerKind = RegularStepGradientDescent real real nat real

text \<open>
  The settings of \<^verbatim>\<open>sitk.ImageRegistrationMethod\<close> that the source touches.
  \<open>MetricSamplingSeed\<close> is the optional \<^verbatim>\<open>seed\<close> argument of
  \<^verbatim>\<open>SetMetricSamplingPercentage\<close>: \<open>None\<close> when the caller passes none.
\<close>

record ImageRegistrationMethod =
  Metric :: MetricKind
  MetricSamplingStrategy :: SamplingStrategy
  MetricSamplingPercentage :: real
  MetricSamplingSeed :: "nat option"
  Interpolator :: InterpolatorEnum
  Optimizer :: OptimizerKind
  OptimizerScalesFromPhysicalShift :: bool
  ShrinkFactorsPerLevel :: "nat list"
  SmoothingSigmasPerLevel :: "real list"
  SmoothingSigmasAreSpecifiedInPhysicalUnits :: bool
  InitialTransform :: Transform
  InitialTransformInPlace :: bool

record ResampleImageFilter =
  ReferenceImage :: Image
  ResampleInterpolator :: InterpolatorEnum
  DefaultPixelValue :: real
  ResampleTransform :: Transform


section \<open>Files, output and failures\<close>

datatype stored_file = ImageFile Image | TransformFile Transform

text \<open>
  SimpleITK reports every failure as a Python \<^verbatim>\<open>RuntimeError\<close>; the constructor
  records which call raised it.  The scripts define no exception class of their own and
  contain no \<^verbatim>\<open>try\<close>, so a raised error leaves the running function at once.
\<close>

datatype RuntimeError =
    ReadImageError path
  | ReadTransformError path
  | WriteImageError path
  | WriteTransformError path
  | RegistrationError string
  | ResampleError

datatype sitk_call =
    RegistrationCall ImageRegistrationMethod Image Image
  | ResampleCall ResampleImageFilter Image

text \<open>
  The world a script runs in: the files by path, the lines printed so far, and the
  registrations and resamplings executed so far (a trace kept for stating properties).
\<close>

record world =
  files :: "path \<Rightarrow> stored_file option"
  stdout :: "string list"
  calls :: "sitk_call list"

text \<open>
  What the scripts take from the SimpleITK library and the platform without defining it:
  the optimiser behind \<^verbatim>\<open>ImageRegistrationMethod.Execute\<close> (a failure message, or the
  final transform with the flag telling whether the tolerance was met before the iteration
  cap), the coordinate chain of the resampler, linear interpolation, the pixel conversion of
  \<^verbatim>\<open>ReadImage\<close>, and which paths can be written.
\<close>

record sitk =
  RegistrationExecute :: "ImageRegistrationMethod \<Rightarrow> Image \<Rightarrow> Image \<Rightarrow> string + Transform \<times> bool"
  SourceContinuousIndex :: "Image \<Rightarrow> Transform \<Rightarrow> Image \<Rightarrow> nat list \<Rightarrow> real list"
  LinearInterpolate :: "Image \<Rightarrow> real list \<Rightarrow> real"
  CastPixel :: "PixelIDValue \<Rightarrow> real \<Rightarrow> real"
  Writable :: "path \<Rightarrow> bool"

definition print_line :: "string \<Rightarrow> world \<Rightarrow> world" where
  "print_line s w = w\<lparr>stdout := stdout w @ [s]\<rparr>"

definition isfile :: "world \<Rightarrow> path \<Rightarrow> bool" where
  "isfile w p = (files w p \<noteq> None)"

text \<open>
  Modelled from the spec: the volume and transform I/O collaborators of section 6
  (\<^verbatim>\<open>sitk.ReadImage\<close>, \<^verbatim>\<open>sitk.WriteImage\<close>, \<^verbatim>\<open>sitk.ReadTransform\<close>,
  \<^verbatim>\<open>sitk.WriteTransform\<close>), which are library code.  A file holds what was last written
  to its path; reading an image converts it to the requested pixel type; a missing file or
  one of the wrong sort fails.
\<close>

definition ReadImage :: "sitk \<Rightarrow> world \<Rightarrow> path \<Rightarrow> PixelIDValue \<Rightarrow> RuntimeError + Image" where
  "ReadImage lib w p outputPixelType =
     (case files w p of
        Some (ImageFile img) \<Rightarrow>
          Inr (img\<lparr>PixelID := outputPixelType,
                   Pixel := (\<lambda>idx. CastPixel lib outputPixelType (Pixel img idx))\<rparr>)
      | _ \<Rightarrow> Inl (ReadImageError p))"

definition ReadTransform :: "world \<Rightarrow> path \<Rightarrow> RuntimeError + Transform" where
  "ReadTransform w p =
     (case files w p of
        Some (TransformFile t) \<Rightarrow> Inr t
      | _ \<Rightarrow> Inl (ReadTransformError p))"

definition WriteImage :: "sitk \<Rightarrow> Image \<Rightarrow> path \<Rightarrow> world \<Rightarrow> RuntimeError + world" where
  "WriteImage lib img p w =
     (if Writable lib p then Inr (w\<lparr>files := (files w)(p \<mapsto> ImageFile img)\<rparr>)
      else Inl (WriteImageError p))"

definition WriteTransform :: "sitk \<Rightarrow> Transform \<Rightarrow> path \<Rightarrow> world \<Rightarrow> RuntimeError + world" where
  "WriteTransform lib t p w =
     (if Writable lib p then Inr (w\<lparr>files := (files w)(p \<mapsto> TransformFile t)\<rparr>)
      else Inl (WriteTransformError p))"


section \<open>The library operations the scripts call\<close>

subsection \<open>Centred initialisation\<close>

definition mat_vec :: "real list list \<Rightarrow> real list \<Rightarrow> real list" where
  "mat_vec m v = map (\<lambda>row. sum_list (map2 (*) row v)) m"

definition TransformContinuousIndexToPhysicalPoint :: "Image \<Rightarrow> real list \<Rightarrow> real list" where
  "TransformContinuousIndexToPhysicalPoint img c =
     map2 (+) (Origin img) (mat_vec (Direction img) (map2 (*) (Spacing img) c))"

text \<open>The physical point of the middle of the voxel grid.\<close>

definition geometric_center :: "Image \<Rightarrow> real list" where
  "geometric_center img =
     TransformContinuousIndexToPhysicalPoint img (map (\<lambda>n. (real n - 1) / 2) (Size img))"

datatype OperationMode = GEOMETRY

text \<open>
  Modelled from the spec: \<^verbatim>\<open>sitk.CenteredTransformInitializer\<close> is library code; section
  4.1 describes it as aligning the geometric centres derived from each volume's physical
  bounding box.  The centre of rotation becomes the centre of the fixed image and the
  translation the offset from the fixed centre to the moving centre; the matrix is left
  as it is.
\<close>

definition CenteredTransformInitializer ::
  "Image \<Rightarrow> Image \<Rightarrow> Transform \<Rightarrow> OperationMode \<Rightarrow> Transform" where
  "CenteredTransformInitializer fixedImage movingImage transform operationMode =
     (case operationMode of
        GEOMETRY \<Rightarrow>
          transform\<lparr>Center := geometric_center fixedImage,
                    Translation := map2 (-) (geometric_center movingImage)
                                            (geometric_center fixedImage)\<rparr>)"

subsection \<open>Registration\<close>

text \<open>
  \<^verbatim>\<open>registration_method.Execute(fixed_image, moving_image)\<close> hands back the final
  transform only; whether the optimiser converged stays inside the method object.
\<close>

definition ImageRegistrationMethod_Execute ::
  "sitk \<Rightarrow> ImageRegistrationMethod \<Rightarrow> Image \<Rightarrow> Image \<Rightarrow> world \<Rightarrow> (RuntimeError + Transform) \<times> world" where
  "ImageRegistrationMethod_Execute lib m fixed moving w =
     (case RegistrationExecute lib m fixed moving of
        Inl msg \<Rightarrow> Inl (RegistrationError msg)
      | Inr (final, converged) \<Rightarrow> Inr final,
      w\<lparr>calls := calls w @ [RegistrationCall m fixed moving]\<rparr>)"

subsection \<open>Resampling\<close>

text \<open>Rounding to the closest integer, a tie going to the lower one.\<close>

definition round_half_down :: "real \<Rightarrow> int" where
  "round_half_down x = \<lceil>x - 1 / 2\<rceil>"

definition IsInsideBuffer :: "Image \<Rightarrow> real list \<Rightarrow> bool" where
  "IsInsideBuffer src c =
     list_all2 (\<lambda>x n. 0 \<le> round_half_down x \<and> round_half_down x < int n) c (Size src)"

definition nearest_index :: "real list \<Rightarrow> nat list" where
  "nearest_index c = map (\<lambda>x. nat (round_half_down x)) c"

definition Evaluate :: "sitk \<Rightarrow> InterpolatorEnum \<Rightarrow> Image \<Rightarrow> real list \<Rightarrow> real" where
  "Evaluate lib interpolator src c =
     (case interpolator of
        sitkNearestNeighbor \<Rightarrow> Pixel src (nearest_index c)
      | sitkLinear \<Rightarrow> LinearInterpolate lib src c)"

text \<open>
  Modelled from the spec: \<^verbatim>\<open>sitk.ResampleImageFilter.Execute\<close> is library code; this is
  the resampler of section 4.2.  Every voxel of the reference grid is mapped to a coordinate
  of the source (the chain through the reference's affine, the transform and the source's
  affine is \<open>SourceContinuousIndex\<close>) and sampled there; a coordinate outside the source
  receives the fill value; the output sits on the reference grid and keeps the source's
  pixel type.  Grids of different dimension are a failure.
\<close>

definition ResampleImageFilter_Execute ::
  "sitk \<Rightarrow> ResampleImageFilter \<Rightarrow> Image \<Rightarrow> RuntimeError + Image" where
  "ResampleImageFilter_Execute lib resampler src =
     (let ref = ReferenceImage resampler in
      if length (Size src) \<noteq> length (Size ref) then Inl ResampleError
      else Inr \<lparr>PixelID = PixelID src, Size = Size ref, Origin = Origin ref,
                Spacing = Spacing ref, Direction = Direction ref,
                Pixel = (\<lambda>idx.
                  let c = SourceContinuousIndex lib ref (ResampleTransform resampler) src idx
                  in if IsInsideBuffer src c
                     then Evaluate lib (ResampleInterpolator resampler) src c
                     else DefaultPixelValue resampler)\<rparr>)"

text \<open>\<^verbatim>\<open>resampler.Execute(image)\<close> as a step of a script: the call is traced.\<close>

definition resampler_Execute ::
  "sitk \<Rightarrow> ResampleImageFilter \<Rightarrow> Image \<Rightarrow> world \<Rightarrow> (RuntimeError + Image) \<times> world" where
  "resampler_Execute lib resampler src w =
     (ResampleImageFilter_Execute lib resampler src,
      w\<lparr>calls := calls w @ [ResampleCall resampler src]\<rparr>)"

text \<open>All voxel indices of a grid of the given size.\<close>

fun indices :: "nat list \<Rightarrow> nat list list" where
  "indices [] = [[]]"
| "indices (n # ns) = concat (map (\<lambda>i. map ((#) i) (indices ns)) [0..<n])"

text \<open>The values an image takes on its grid.\<close>

definition label_values :: "Image \<Rightarrow> real set" where
  "label_values img = Pixel img ` set (indices (Size img))"


section \<open>coreg\_pipeline.py\<close>

text \<open>Lines 40 to 52 of \<^verbatim>\<open>register_t1_to_magnitude\<close>.\<close>

definition initial_transform :: "bool \<Rightarrow> Image \<Rightarrow> Image \<Rightarrow> Transform" where
  "initial_transform rigid fixed_image moving_image =
     (if rigid
      then CenteredTransformInitializer fixed_image moving_image new_Euler3DTransform GEOMETRY
      else CenteredTransformInitializer fixed_image moving_image (new_AffineTransform 3) GEOMETRY)"

text \<open>Lines 55 to 76: the registration method and its settings.\<close>

definition registration_method :: "Transform \<Rightarrow> ImageRegistrationMethod" where
  "registration_method initial =
     \<lparr>Metric = MattesMutualInformation 50,
      MetricSamplingStrategy = RANDOM,
      MetricSamplingPercentage = 1 / 100,
      MetricSamplingSeed = None,
      Interpolator = sitkLinear,
      Optimizer = RegularStepGradientDescent 2 (1 / 10000) 200 (1 / 100000000),
      OptimizerScalesFromPhysicalShift = True,
      ShrinkFactorsPerLevel = [4, 2, 1],
      SmoothingSigmasPerLevel = [2, 1, 0],
      SmoothingSigmasAreSpecifiedInPhysicalUnits = True,
      InitialTransform = initial,
      InitialTransformInPlace = False\<rparr>"

definition registration_complete :: "path \<Rightarrow> path \<Rightarrow> path \<Rightarrow> path \<Rightarrow> string list" where
  "registration_complete magnitude_path t1_path out_registered out_matrix =
     [CHR 0x0A # ''[Registration Complete]'',
      ''  Fixed (Magnitude): '' @ magnitude_path,
      ''  Moving  (T1):      '' @ t1_path,
      ''  => Registered T1:  '' @ out_registered,
      ''  => Transform:      '' @ out_matrix]"

definition register_t1_to_magnitude ::
  "sitk \<Rightarrow> path \<Rightarrow> path \<Rightarrow> path option \<Rightarrow> path option \<Rightarrow> bool \<Rightarrow> world
     \<Rightarrow> (RuntimeError + path \<times> path) \<times> world" where
  "register_t1_to_magnitude lib t1_path magnitude_path out_matrix out_registered rigid w =
     (let out_registered =
            (case out_registered of
               None \<Rightarrow> fst (splitext t1_path) @ ''_toMag.nii.gz''
             | Some given \<Rightarrow> given);
          out_matrix =
            (case out_matrix of
               None \<Rightarrow> fst (splitext t1_path) @ ''_toMag_transform.tfm''
             | Some given \<Rightarrow> given)
      in case ReadImage lib w magnitude_path sitkFloat32 of
           Inl e \<Rightarrow> (Inl e, w)
         | Inr fixed_image \<Rightarrow>
      (case ReadImage lib w t1_path sitkFloat32 of
           Inl e \<Rightarrow> (Inl e, w)
         | Inr moving_image \<Rightarrow>
      (case ImageRegistrationMethod_Execute lib
              (registration_method (initial_transform rigid fixed_image moving_image))
              fixed_image moving_image w of
           (Inl e, w1) \<Rightarrow> (Inl e, w1)
         | (Inr final_transform, w1) \<Rightarrow>
      (case resampler_Execute lib
              \<lparr>ReferenceImage = fixed_image, ResampleInterpolator = sitkLinear,
               DefaultPixelValue = 0, ResampleTransform = final_transform\<rparr>
              moving_image w1 of
           (Inl e, w2) \<Rightarrow> (Inl e, w2)
         | (Inr registered_image, w2) \<Rightarrow>
      (case WriteImage lib registered_image out_registered w2 of
           Inl e \<Rightarrow> (Inl e, w2)
         | Inr w3 \<Rightarrow>
      (case WriteTransform lib final_transform out_matrix w3 of
           Inl e \<Rightarrow> (Inl e, w3)
         | Inr w4 \<Rightarrow>
      (Inr (out_registered, out_matrix),
       w4\<lparr>stdout := stdout w4 @
            registration_complete magnitude_path t1_path out_registered out_matrix\<rparr>)))))))"

definition mask_resampling_complete :: "path \<Rightarrow> path \<Rightarrow> path \<Rightarrow> string list" where
  "mask_resampling_complete magnitude_path mask_path out_mask =
     [CHR 0x0A # ''[Mask Resampling Complete]'',
      ''  Fixed (Magnitude): '' @ magnitude_path,
      ''  Mask:              '' @ mask_path,
      ''  => Resampled Mask: '' @ out_mask]"

definition apply_transform_to_mask ::
  "sitk \<Rightarrow> path \<Rightarrow> path \<Rightarrow> path \<Rightarrow> path option \<Rightarrow> world \<Rightarrow> (RuntimeError + path) \<times> world" where
  "apply_transform_to_mask lib mask_path magnitude_path transform_matrix out_mask w =
     (let out_mask =
            (case out_mask of
               None \<Rightarrow> fst (splitext mask_path) @ ''_toMag.nii.gz''
             | Some given \<Rightarrow> given)
      in case ReadImage lib w magnitude_path sitkFloat32 of
           Inl e \<Rightarrow> (Inl e, w)
         | Inr fixed_image \<Rightarrow>
      (case ReadImage lib w mask_path sitkUInt8 of
           Inl e \<Rightarrow> (Inl e, w)
         | Inr mask_image \<Rightarrow>
      (case ReadTransform w transform_matrix of
           Inl e \<Rightarrow> (Inl e, w)
         | Inr transform \<Rightarrow>
      (case resampler_Execute lib
              \<lparr>ReferenceImage = fixed_image, ResampleInterpolator = sitkNearestNeighbor,
               DefaultPixelValue = 0, ResampleTransform = transform\<rparr>
              mask_image w of
           (Inl e, w1) \<Rightarrow> (Inl e, w1)
         | (Inr resampled_mask, w1) \<Rightarrow>
      (case WriteImage lib resampled_mask out_mask w1 of
           Inl e \<Rightarrow> (Inl e, w1)
         | Inr w2 \<Rightarrow>
      (Inr out_mask,
       w2\<lparr>stdout := stdout w2 @
            mask_resampling_complete magnitude_path mask_path out_mask\<rparr>))))))"

definition flair_resampling_complete :: "path \<Rightarrow> path \<Rightarrow> path \<Rightarrow> string list" where
  "flair_resampling_complete magnitude_path flair_path out_flair =
     [CHR 0x0A # ''[FLAIR Resampling Complete]'',
      ''  Fixed (Magnitude): '' @ magnitude_path,
      ''  FLAIR:             '' @ flair_path,
      ''  => Resampled FLAIR:'' @ out_flair]"

definition apply_transform_to_flair ::
  "sitk \<Rightarrow> path \<Rightarrow> path \<Rightarrow> path \<Rightarrow> path option \<Rightarrow> world \<Rightarrow> (RuntimeError + path) \<times> world" where
  "apply_transform_to_flair lib flair_path magnitude_path transform_matrix out_flair w =
     (let out_flair =
            (case out_flair of
               None \<Rightarrow> fst (splitext flair_path) @ ''_toMag.nii.gz''
             | Some given \<Rightarrow> given)
      in case ReadImage lib w magnitude_path sitkFloat32 of
           Inl e \<Rightarrow> (Inl e, w)
         | Inr fixed_image \<Rightarrow>
      (case ReadImage lib w flair_path sitkFloat32 of
           Inl e \<Rightarrow> (Inl e, w)
         | Inr flair_image \<Rightarrow>
      (case ReadTransform w transform_matrix of
           Inl e \<Rightarrow> (Inl e, w)
         | Inr transform \<Rightarrow>
      (case resampler_Execute lib
              \<lparr>ReferenceImage = fixed_image, ResampleInterpolator = sitkLinear,
               DefaultPixelValue = 0, ResampleTransform = transform\<rparr>
              flair_image w of
           (Inl e, w1) \<Rightarrow> (Inl e, w1)
         | (Inr resampled_flair, w1) \<Rightarrow>
      (case WriteImage lib resampled_flair out_flair w1 of
           Inl e \<Rightarrow> (Inl e, w1)
         | Inr w2 \<Rightarrow>
      (Inr out_flair,
       w2\<lparr>stdout := stdout w2 @
            flair_resampling_complete magnitude_path flair_path out_flair\<rparr>))))))"

definition main_registration_pipeline ::
  "sitk \<Rightarrow> path \<Rightarrow> path \<Rightarrow> path \<Rightarrow> path \<Rightarrow> world
     \<Rightarrow> (RuntimeError + path \<times> path \<times> path) \<times> world" where
  "main_registration_pipeline lib t1_path flair magnitude_path mask_path w =
     (case register_t1_to_magnitude lib t1_path magnitude_path None None False w of
        (Inl e, w1) \<Rightarrow> (Inl e, w1)
      | (Inr (registered_t1, transform_matrix), w1) \<Rightarrow>
     (case apply_transform_to_mask lib mask_path magnitude_path transform_matrix None w1 of
        (Inl e, w2) \<Rightarrow> (Inl e, w2)
      | (Inr transformed_mask, w2) \<Rightarrow>
     (case apply_transform_to_flair lib flair magnitude_path transform_matrix None w2 of
        (Inl e, w3) \<Rightarrow> (Inl e, w3)
      | (Inr registered_flair, w3) \<Rightarrow>
     (Inr (registered_t1, transformed_mask, registered_flair), w3))))"


section \<open>reg\_mspace\_masks.py\<close>

text \<open>The script's own copy of \<^verbatim>\<open>apply_transform_to_mask\<close>.\<close>

definition mspace_apply_transform_to_mask ::
  "sitk \<Rightarrow> path \<Rightarrow> path \<Rightarrow> path \<Rightarrow> path option \<Rightarrow> world \<Rightarrow> (RuntimeError + path) \<times> world" where
  "mspace_apply_transform_to_mask lib mask_path magnitude_path transform_matrix out_mask w =
     (let out_mask =
            (case out_mask of
               None \<Rightarrow> fst (splitext mask_path) @ ''_toMag.nii.gz''
             | Some given \<Rightarrow> given)
      in case ReadImage lib w magnitude_path sitkFloat32 of
           Inl e \<Rightarrow> (Inl e, w)
         | Inr fixed_image \<Rightarrow>
      (case ReadImage lib w mask_path sitkUInt8 of
           Inl e \<Rightarrow> (Inl e, w)
         | Inr mask_image \<Rightarrow>
      (case ReadTransform w transform_matrix of
           Inl e \<Rightarrow> (Inl e, w)
         | Inr transform \<Rightarrow>
      (case resampler_Execute lib
              \<lparr>ReferenceImage = fixed_image, ResampleInterpolator = sitkNearestNeighbor,
               DefaultPixelValue = 0, ResampleTransform = transform\<rparr>
              mask_image w of
           (Inl e, w1) \<Rightarrow> (Inl e, w1)
         | (Inr resampled_mask, w1) \<Rightarrow>
      (case WriteImage lib resampled_mask out_mask w1 of
           Inl e \<Rightarrow> (Inl e, w1)
         | Inr w2 \<Rightarrow>
      (Inr out_mask,
       w2\<lparr>stdout := stdout w2 @
            mask_resampling_complete magnitude_path mask_path out_mask\<rparr>))))))"

text \<open>
  Steps 5 and 6 of the loop body of \<^verbatim>\<open>transform_lesion_labels_in_directory\<close> (lines 128
  to 148), for one year folder whose \<^verbatim>\<open>registered\<close> folder exists: a missing transform
  or magnitude image is printed and skipped, otherwise the transform is applied to the lesion
  labels.
\<close>

definition transform_lesion_labels_in_registered_folder ::
  "sitk \<Rightarrow> path \<Rightarrow> string \<Rightarrow> path \<Rightarrow> world \<Rightarrow> (RuntimeError + unit) \<times> world" where
  "transform_lesion_labels_in_registered_folder lib lesion_label_file folder_name
       registered_folder w =
     (let transform_matrix =
            join registered_folder ''T1_corrected_canonical.nii_toMag_transform.tfm''
      in if \<not> isfile w transform_matrix
         then (Inr (),
               print_line (''  Transform matrix not found in '' @ registered_folder
                           @ '', skipping.'') w)
         else
      (let magnitude_path = join registered_folder ''mag_canonical.nii.gz''
       in if \<not> isfile w magnitude_path
          then (Inr (),
                print_line (''  Magnitude image not found in '' @ registered_folder
                            @ '', skipping.'') w)
          else
      (let out_mask_path = join registered_folder ''lesions_MSpace_Mask.nii.gz'';
           w1 = print_line (''  Applying transform for year folder: '' @ folder_name) w
       in case mspace_apply_transform_to_mask lib lesion_label_file magnitude_path
                 transform_matrix (Some out_mask_path) w1 of
            (Inl e, w2) \<Rightarrow> (Inl e, w2)
          | (Inr out_mask, w2) \<Rightarrow> (Inr (), w2))))"


section \<open>Notions for stating the properties\<close>

text \<open>The calls a run has added to the trace.\<close>

definition new_calls :: "world \<Rightarrow> world \<Rightarrow> sitk_call list" where
  "new_calls w w' = drop (length (calls w)) (calls w')"

text \<open>
  The interpolation policy of the specification (section 3): nearest neighbour for a
  categorical volume (integer pixels), linear for a continuous one (float pixels).
\<close>

definition spec_interpolation_policy :: "PixelIDValue \<Rightarrow> InterpolatorEnum" where
  "spec_interpolation_policy pixel_type =
     (case pixel_type of sitkUInt8 \<Rightarrow> sitkNearestNeighbor | sitkFloat32 \<Rightarrow> sitkLinear)"


text \<open>What every call issued by the scripts looks like, and a trace that grew by such calls only.\<close>

definition issued_by_scripts :: "sitk_call \<Rightarrow> bool" where
  "issued_by_scripts c =
     (case c of
        RegistrationCall m fixed moving \<Rightarrow>
          m = registration_method (InitialTransform m)
      | ResampleCall resampler img \<Rightarrow>
          DefaultPixelValue resampler = 0 \<and>
          ResampleInterpolator resampler = spec_interpolation_policy (PixelID img))"

definition extends_trace :: "world \<Rightarrow> world \<Rightarrow> bool" where
  "extends_trace w w' =
     (list_all issued_by_scripts (new_calls w w') \<and> calls w' = calls w @ new_calls w w')"


text \<open>The seed given to each registration of a trace, in order.\<close>

fun registration_seeds :: "sitk_call list \<Rightarrow> nat option list" where
  "registration_seeds [] = []"
| "registration_seeds (RegistrationCall m fixed moving # cs) =
     MetricSamplingSeed m # registration_seeds cs"
| "registration_seeds (ResampleCall resampler img # cs) = registration_seeds cs"

definition fills_with_zero :: "sitk_call \<Rightarrow> bool" where
  "fills_with_zero c =
     (case c of
        ResampleCall resampler img \<Rightarrow> DefaultPixelValue resampler = 0
      | RegistrationCall m fixed moving \<Rightarrow> True)"


text \<open>A call that resamples through the given transform; a registration is not one.\<close>

definition applies_only :: "Transform \<Rightarrow> sitk_call \<Rightarrow> bool" where
  "applies_only t c =
     (case c of
        ResampleCall resampler img \<Rightarrow> ResampleTransform resampler = t
      | RegistrationCall m fixed moving \<Rightarrow> False)"

text \<open>The determinant of a 3 by 3 matrix given by its rows.\<close>

fun det3 :: "real list list \<Rightarrow> real" where
  "det3 [[a, b, c], [d, e, f], [g, h, i]] =
     a * (e * i - f * h) - b * (d * i - f * g) + c * (d * h - e * g)"
| "det3 m = 0"


section \<open>Example inputs\<close>

text \<open>
  A small library instance and a small set of files, for evaluating the scripts: the
  optimiser returns the initial transform at once, coordinates are shifted by the
  translation of the transform, every path can be written.
\<close>

definition example_image :: "real \<Rightarrow> Image" where
  "example_image v =
     \<lparr>PixelID = sitkFloat32, Size = [2, 1, 1], Origin = [0, 0, 0], Spacing = [1, 1, 1],
      Direction = [[1, 0, 0], [0, 1, 0], [0, 0, 1]],
      Pixel = (\<lambda>idx. if idx = [1, 0, 0] then v else 0)\<rparr>"

definition example_sitk :: "bool \<Rightarrow> sitk" where
  "example_sitk converged =
     \<lparr>RegistrationExecute = (\<lambda>m fixed moving. Inr (InitialTransform m, converged)),
      SourceContinuousIndex = (\<lambda>ref t src idx. map2 (\<lambda>i d. real i + d) idx (Translation t)),
      LinearInterpolate = (\<lambda>src c. Pixel src (nearest_index c)),
      CastPixel = (\<lambda>pid v. v),
      Writable = (\<lambda>p. True)\<rparr>"

definition example_world :: world where
  "example_world =
     \<lparr>files = [''reg/T1_corrected_canonical.nii.gz'' \<mapsto> ImageFile (example_image 7),
               ''reg/mag_canonical.nii.gz'' \<mapsto> ImageFile (example_image 5),
               ''reg/FLAIR.nii.gz'' \<mapsto> ImageFile (example_image 3),
               ''reg/mask.nii.gz'' \<mapsto> ImageFile (example_image 1),
               ''lesion_labels.nii.gz'' \<mapsto> ImageFile (example_image 2)],
      stdout = [], calls = []\<rparr>"


text \<open>
  A degenerate case: images of a single voxel, and an optimiser that returns a transform
  whose matrix is zero.
\<close>

definition constant_image :: Image where
  "constant_image =
     \<lparr>PixelID = sitkFloat32, Size = [1, 1, 1], Origin = [0, 0, 0], Spacing = [1, 1, 1],
      Direction = [[1, 0, 0], [0, 1, 0], [0, 0, 1]], Pixel = (\<lambda>idx. 3)\<rparr>"

definition singular_transform :: Transform where
  "singular_transform =
     \<lparr>Kind = AffineTransform, Matrix = [[0, 0, 0], [0, 0, 0], [0, 0, 0]],
      Center = [0, 0, 0], Translation = [0, 0, 0]\<rparr>"

definition singular_sitk :: sitk where
  "singular_sitk =
     (example_sitk True)\<lparr>RegistrationExecute := (\<lambda>m fixed moving. Inr (singular_transform, True))\<rparr>"

definition degenerate_world :: world where
  "degenerate_world =
     \<lparr>files = [''reg/T1_corrected_canonical.nii.gz'' \<mapsto> ImageFile constant_image,
               ''reg/mag_canonical.nii.gz'' \<mapsto> ImageFile constant_image],
      stdout = [], calls = []\<rparr>"

text \<open>
  A label map stored with integer pixels, next to a magnitude image and a stored transform.
\<close>

definition label_image :: Image where
  "label_image = (example_image 2)\<lparr>PixelID := sitkUInt8\<rparr>"


text \<open>The example files with the mask missing.\<close>

definition world_without_mask :: world where
  "world_without_mask = example_world\<lparr>files := (files example_world)(''reg/mask.nii.gz'' := None)\<rparr>"


section \<open>Facts about the path functions\<close>

lemma rfind_from_append:
  "rfind_from (xs @ ys) c i found = rfind_from ys c (i + int (length xs)) (rfind_from xs c i found)"
  by (induction xs arbitrary: i found) (simp_all add: algebra_simps)

lemma rfind_from_absent: "c \<notin> set xs \<Longrightarrow> rfind_from xs c i found = found"
  by (induction xs arbitrary: i found) auto

lemma rfind_from_bounds:
  "found < i \<Longrightarrow> rfind_from xs c i found < i + int (length xs)"
proof (induction xs arbitrary: i found)
  case Nil
  then show ?case by simp
next
  case (Cons x xs)
  have "(if x = c then i else found) < i + 1" using Cons.prems by simp
  from Cons.IH [OF this] show ?case by simp
qed

lemma rfind_less_length: "rfind p c < int (length p)"
  using rfind_from_bounds [of "- 1" 0 p c] by (simp add: rfind_def)

lemma rfind_last_occurrence:
  "c \<notin> set ys \<Longrightarrow> rfind (xs @ c # ys) c = int (length xs)"
  by (simp add: rfind_def rfind_from_append rfind_from_absent)

lemma rfind_append_absent: "c \<notin> set ys \<Longrightarrow> rfind (xs @ ys) c = rfind xs c"
  by (simp add: rfind_def rfind_from_append rfind_from_absent)

lemma splitext_loop_found:
  "filenameIndex \<le> j \<Longrightarrow> j < dotIndex \<Longrightarrow> j < length p \<Longrightarrow> p ! j \<noteq> CHR ''.'' \<Longrightarrow>
   splitext_loop p dotIndex filenameIndex = (take dotIndex p, drop dotIndex p)"
proof (induction p dotIndex filenameIndex rule: splitext_loop.induct)
  case (1 p dotIndex filenameIndex)
  show ?case
  proof (cases "take 1 (drop filenameIndex p) \<noteq> ''.''")
    case True
    with "1.prems" show ?thesis by (subst splitext_loop.simps) simp
  next
    case False
    then have dot: "p ! filenameIndex = CHR ''.''"
      using "1.prems" by (cases "drop filenameIndex p") (auto simp: nth_via_drop)
    with "1.prems" have "filenameIndex \<noteq> j" by auto
    with "1.prems" have "filenameIndex + 1 \<le> j" by simp
    with "1.IH" False "1.prems" show ?thesis
      by (subst splitext_loop.simps) simp
  qed
qed

lemma splitext_nii_gz:
  "splitext (stem @ ''.nii.gz'') = (stem @ ''.nii'', ''.gz'')"
proof -
  let ?p = "stem @ ''.nii.gz''"
  have dot: "rfind ?p CHR ''.'' = int (length stem) + 4"
    using rfind_last_occurrence [of "CHR ''.''" "''gz''" "stem @ ''.nii''"] by simp
  have sep: "rfind ?p CHR ''/'' = rfind stem CHR ''/''"
    by (rule rfind_append_absent) simp
  have sep_lt: "rfind stem CHR ''/'' < int (length stem)" by (rule rfind_less_length)
  have loop: "splitext_loop ?p (length stem + 4) (nat (rfind stem CHR ''/'' + 1))
      = (take (length stem + 4) ?p, drop (length stem + 4) ?p)"
  proof (rule splitext_loop_found [where j = "length stem + 3"])
    show "nat (rfind stem CHR ''/'' + 1) \<le> length stem + 3" using sep_lt by linarith
    show "?p ! (length stem + 3) \<noteq> CHR ''.''" by (simp add: nth_append)
  qed simp_all
  have "nat (int (length stem) + 4) = length stem + 4" by simp
  with dot sep sep_lt loop show ?thesis
    by (simp add: splitext_def Let_def)
qed

lemma join_relative:
  "take 1 b \<noteq> ''/'' \<Longrightarrow>
   join a b = (if a = '''' \<or> last a = CHR ''/'' then a else a @ ''/'') @ b"
  by (simp add: join_def)

section \<open>Facts about single runs\<close>

lemma register_success:
  assumes "register_t1_to_magnitude lib t1 mag om oreg rigid w = (Inr (r, m), w')"
  obtains fixed moving T conv registered where
    "ReadImage lib w mag sitkFloat32 = Inr fixed"
    "ReadImage lib w t1 sitkFloat32 = Inr moving"
    "RegistrationExecute lib (registration_method (initial_transform rigid fixed moving)) fixed moving
       = Inr (T, conv)"
    "ResampleImageFilter_Execute lib
       \<lparr>ReferenceImage = fixed, ResampleInterpolator = sitkLinear,
        DefaultPixelValue = 0, ResampleTransform = T\<rparr> moving = Inr registered"
    "r = (case oreg of None \<Rightarrow> fst (splitext t1) @ ''_toMag.nii.gz'' | Some given \<Rightarrow> given)"
    "m = (case om of None \<Rightarrow> fst (splitext t1) @ ''_toMag_transform.tfm'' | Some given \<Rightarrow> given)"
    "Writable lib r" "Writable lib m"
    "w' = w\<lparr>files := (files w)(r \<mapsto> ImageFile registered, m \<mapsto> TransformFile T),
            stdout := stdout w @ registration_complete mag t1 r m,
            calls := calls w @
              [RegistrationCall (registration_method (initial_transform rigid fixed moving)) fixed moving,
               ResampleCall \<lparr>ReferenceImage = fixed, ResampleInterpolator = sitkLinear,
                             DefaultPixelValue = 0, ResampleTransform = T\<rparr> moving]\<rparr>"
  using assms
  unfolding register_t1_to_magnitude_def ImageRegistrationMethod_Execute_def
    resampler_Execute_def WriteImage_def WriteTransform_def Let_def
  by (auto split: sum.splits prod.splits if_splits)

lemma ReadImage_PixelID: "ReadImage lib w p t = Inr img \<Longrightarrow> PixelID img = t"
  by (auto simp: ReadImage_def split: option.splits stored_file.splits)

lemma mspace_apply_transform_to_mask_eq:
  "mspace_apply_transform_to_mask = apply_transform_to_mask"
  by (intro ext) (simp add: mspace_apply_transform_to_mask_def apply_transform_to_mask_def)

lemma apply_transform_to_mask_success:
  assumes "apply_transform_to_mask lib mask_path mag tm om w = (Inr p, w')"
  obtains fixed mask_image T resampled where
    "ReadImage lib w mag sitkFloat32 = Inr fixed"
    "ReadImage lib w mask_path sitkUInt8 = Inr mask_image"
    "ReadTransform w tm = Inr T"
    "ResampleImageFilter_Execute lib
       \<lparr>ReferenceImage = fixed, ResampleInterpolator = sitkNearestNeighbor,
        DefaultPixelValue = 0, ResampleTransform = T\<rparr> mask_image = Inr resampled"
    "p = (case om of None \<Rightarrow> fst (splitext mask_path) @ ''_toMag.nii.gz'' | Some given \<Rightarrow> given)"
    "Writable lib p"
    "w' = w\<lparr>files := (files w)(p \<mapsto> ImageFile resampled),
            stdout := stdout w @ mask_resampling_complete mag mask_path p,
            calls := calls w @
              [ResampleCall \<lparr>ReferenceImage = fixed, ResampleInterpolator = sitkNearestNeighbor,
                             DefaultPixelValue = 0, ResampleTransform = T\<rparr> mask_image]\<rparr>"
  using assms
  unfolding apply_transform_to_mask_def resampler_Execute_def WriteImage_def Let_def
  by (auto split: sum.splits prod.splits if_splits)

lemma apply_transform_to_flair_success:
  assumes "apply_transform_to_flair lib flair_path mag tm om w = (Inr p, w')"
  obtains fixed flair_image T resampled where
    "ReadImage lib w mag sitkFloat32 = Inr fixed"
    "ReadImage lib w flair_path sitkFloat32 = Inr flair_image"
    "ReadTransform w tm = Inr T"
    "ResampleImageFilter_Execute lib
       \<lparr>ReferenceImage = fixed, ResampleInterpolator = sitkLinear,
        DefaultPixelValue = 0, ResampleTransform = T\<rparr> flair_image = Inr resampled"
    "p = (case om of None \<Rightarrow> fst (splitext flair_path) @ ''_toMag.nii.gz'' | Some given \<Rightarrow> given)"
    "Writable lib p"
    "w' = w\<lparr>files := (files w)(p \<mapsto> ImageFile resampled),
            stdout := stdout w @ flair_resampling_complete mag flair_path p,
            calls := calls w @
              [ResampleCall \<lparr>ReferenceImage = fixed, ResampleInterpolator = sitkLinear,
                             DefaultPixelValue = 0, ResampleTransform = T\<rparr> flair_image]\<rparr>"
  using assms
  unfolding apply_transform_to_flair_def resampler_Execute_def WriteImage_def Let_def
  by (auto split: sum.splits prod.splits if_splits)

text \<open>A failed application has written and printed nothing.\<close>

lemma apply_transform_to_mask_failure:
  assumes "apply_transform_to_mask lib mask_path mag tm om w = (Inl e, w')"
  shows "files w' = files w \<and> stdout w' = stdout w"
  using assms
  unfolding apply_transform_to_mask_def resampler_Execute_def WriteImage_def Let_def
  by (auto split: sum.splits prod.splits if_splits)

section \<open>Facts about the traces\<close>

text \<open>What a function can add to the trace, whether it returns or raises.\<close>

lemma register_t1_to_magnitude_trace:
  "calls (snd (register_t1_to_magnitude lib t1 mag om oreg rigid w)) = calls w \<or>
   (\<exists>fixed moving.
      ReadImage lib w mag sitkFloat32 = Inr fixed \<and> ReadImage lib w t1 sitkFloat32 = Inr moving \<and>
      calls (snd (register_t1_to_magnitude lib t1 mag om oreg rigid w)) = calls w @
         [RegistrationCall (registration_method (initial_transform rigid fixed moving)) fixed moving]) \<or>
   (\<exists>fixed moving T conv.
      ReadImage lib w mag sitkFloat32 = Inr fixed \<and> ReadImage lib w t1 sitkFloat32 = Inr moving \<and>
      RegistrationExecute lib (registration_method (initial_transform rigid fixed moving))
         fixed moving = Inr (T, conv) \<and>
      calls (snd (register_t1_to_magnitude lib t1 mag om oreg rigid w)) = calls w @
         [RegistrationCall (registration_method (initial_transform rigid fixed moving)) fixed moving,
          ResampleCall \<lparr>ReferenceImage = fixed, ResampleInterpolator = sitkLinear,
                        DefaultPixelValue = 0, ResampleTransform = T\<rparr> moving])"
  unfolding register_t1_to_magnitude_def ImageRegistrationMethod_Execute_def
    resampler_Execute_def WriteImage_def WriteTransform_def Let_def
  by (auto split: sum.splits prod.splits if_splits)

lemma apply_transform_to_mask_trace:
  "calls (snd (apply_transform_to_mask lib mask_path mag tm om w)) = calls w \<or>
   (\<exists>fixed mask_image T.
      ReadImage lib w mag sitkFloat32 = Inr fixed \<and>
      ReadImage lib w mask_path sitkUInt8 = Inr mask_image \<and>
      ReadTransform w tm = Inr T \<and>
      calls (snd (apply_transform_to_mask lib mask_path mag tm om w)) = calls w @
         [ResampleCall \<lparr>ReferenceImage = fixed, ResampleInterpolator = sitkNearestNeighbor,
                        DefaultPixelValue = 0, ResampleTransform = T\<rparr> mask_image])"
  unfolding apply_transform_to_mask_def resampler_Execute_def WriteImage_def Let_def
  by (auto split: sum.splits prod.splits if_splits)

lemma apply_transform_to_flair_trace:
  "calls (snd (apply_transform_to_flair lib flair_path mag tm om w)) = calls w \<or>
   (\<exists>fixed flair_image T.
      ReadImage lib w mag sitkFloat32 = Inr fixed \<and>
      ReadImage lib w flair_path sitkFloat32 = Inr flair_image \<and>
      ReadTransform w tm = Inr T \<and>
      calls (snd (apply_transform_to_flair lib flair_path mag tm om w)) = calls w @
         [ResampleCall \<lparr>ReferenceImage = fixed, ResampleInterpolator = sitkLinear,
                        DefaultPixelValue = 0, ResampleTransform = T\<rparr> flair_image])"
  unfolding apply_transform_to_flair_def resampler_Execute_def WriteImage_def Let_def
  by (auto split: sum.splits prod.splits if_splits)

lemma extends_trace_refl: "calls w' = calls w \<Longrightarrow> extends_trace w w'"
  by (simp add: extends_trace_def new_calls_def)

lemma extends_trace_append:
  "calls w' = calls w @ xs \<Longrightarrow> list_all issued_by_scripts xs \<Longrightarrow> extends_trace w w'"
  by (simp add: extends_trace_def new_calls_def)

lemma extends_trace_trans:
  assumes "extends_trace w w1" and "extends_trace w1 w2"
  shows "extends_trace w w2"
proof -
  define xs1 where "xs1 = new_calls w w1"
  define xs2 where "xs2 = new_calls w1 w2"
  from assms have c1: "calls w1 = calls w @ xs1" and c2: "calls w2 = calls w1 @ xs2"
    and ok: "list_all issued_by_scripts xs1" "list_all issued_by_scripts xs2"
    by (simp_all add: extends_trace_def xs1_def xs2_def)
  have "new_calls w w2 = xs1 @ xs2" by (simp add: new_calls_def c1 c2)
  with ok c1 c2 show ?thesis by (simp add: extends_trace_def)
qed

lemma InitialTransform_registration_method [simp]:
  "InitialTransform (registration_method initial) = initial"
  by (simp add: registration_method_def)

lemma register_t1_to_magnitude_extends:
  "extends_trace w (snd (register_t1_to_magnitude lib t1 mag om oreg rigid w))"
proof -
  have "issued_by_scripts c"
    if "c \<in> set (drop (length (calls w)) (calls (snd (register_t1_to_magnitude lib t1 mag om oreg rigid w))))" for c
    using that register_t1_to_magnitude_trace [of lib t1 mag om oreg rigid w]
    by (elim disjE exE conjE)
       (auto dest!: ReadImage_PixelID
             simp: issued_by_scripts_def spec_interpolation_policy_def)
  moreover have "calls (snd (register_t1_to_magnitude lib t1 mag om oreg rigid w))
      = calls w @ drop (length (calls w)) (calls (snd (register_t1_to_magnitude lib t1 mag om oreg rigid w)))"
    using register_t1_to_magnitude_trace [of lib t1 mag om oreg rigid w] by auto
  ultimately show ?thesis
    by (simp add: extends_trace_def new_calls_def list_all_iff)
qed

lemma apply_transform_to_mask_extends:
  "extends_trace w (snd (apply_transform_to_mask lib mask_path mag tm om w))"
proof -
  have "issued_by_scripts c"
    if "c \<in> set (drop (length (calls w)) (calls (snd (apply_transform_to_mask lib mask_path mag tm om w))))" for c
    using that apply_transform_to_mask_trace [of lib mask_path mag tm om w]
    by (elim disjE exE conjE)
       (auto dest!: ReadImage_PixelID
             simp: issued_by_scripts_def spec_interpolation_policy_def)
  moreover have "calls (snd (apply_transform_to_mask lib mask_path mag tm om w))
      = calls w @ drop (length (calls w)) (calls (snd (apply_transform_to_mask lib mask_path mag tm om w)))"
    using apply_transform_to_mask_trace [of lib mask_path mag tm om w] by auto
  ultimately show ?thesis
    by (simp add: extends_trace_def new_calls_def list_all_iff)
qed

lemma apply_transform_to_flair_extends:
  "extends_trace w (snd (apply_transform_to_flair lib flair_path mag tm om w))"
proof -
  have "issued_by_scripts c"
    if "c \<in> set (drop (length (calls w)) (calls (snd (apply_transform_to_flair lib flair_path mag tm om w))))" for c
    using that apply_transform_to_flair_trace [of lib flair_path mag tm om w]
    by (elim disjE exE conjE)
       (auto dest!: ReadImage_PixelID
             simp: issued_by_scripts_def spec_interpolation_policy_def)
  moreover have "calls (snd (apply_transform_to_flair lib flair_path mag tm om w))
      = calls w @ drop (length (calls w)) (calls (snd (apply_transform_to_flair lib flair_path mag tm om w)))"
    using apply_transform_to_flair_trace [of lib flair_path mag tm om w] by auto
  ultimately show ?thesis
    by (simp add: extends_trace_def new_calls_def list_all_iff)
qed

lemma main_registration_pipeline_extends:
  "extends_trace w (snd (main_registration_pipeline lib t1 flair mag mask_path w))"
proof -
  obtain r1 w1 where reg: "register_t1_to_magnitude lib t1 mag None None False w = (r1, w1)"
    by (cases "register_t1_to_magnitude lib t1 mag None None False w")
  have e1: "extends_trace w w1"
    using register_t1_to_magnitude_extends [of w lib t1 mag None None False] reg by simp
  show ?thesis
  proof (cases r1)
    case (Inl e)
    with reg e1 show ?thesis by (simp add: main_registration_pipeline_def)
  next
    case (Inr paths)
    obtain registered_t1 tm where paths: "paths = (registered_t1, tm)" by (cases paths)
    obtain r2 w2 where msk: "apply_transform_to_mask lib mask_path mag tm None w1 = (r2, w2)"
      by (cases "apply_transform_to_mask lib mask_path mag tm None w1")
    have e2: "extends_trace w w2"
      using apply_transform_to_mask_extends [of w1 lib mask_path mag tm None] msk e1
      by (auto intro: extends_trace_trans)
    show ?thesis
    proof (cases r2)
      case (Inl e)
      with reg Inr paths msk e2 show ?thesis by (simp add: main_registration_pipeline_def)
    next
      case (Inr transformed_mask)
      obtain r3 w3 where flr: "apply_transform_to_flair lib flair mag tm None w2 = (r3, w3)"
        by (cases "apply_transform_to_flair lib flair mag tm None w2")
      have e3: "extends_trace w w3"
        using apply_transform_to_flair_extends [of w2 lib flair mag tm None] flr e2
        by (auto intro: extends_trace_trans)
      from reg \<open>r1 = Inr paths\<close> paths msk Inr flr e3 show ?thesis
        by (cases r3) (simp_all add: main_registration_pipeline_def)
    qed
  qed
qed

lemma transform_lesion_labels_in_registered_folder_extends:
  "extends_trace w
     (snd (transform_lesion_labels_in_registered_folder lib lesion folder_name registered_folder w))"
proof -
  define w1 where "w1 = print_line (''  Applying transform for year folder: '' @ folder_name) w"
  define tm where "tm = join registered_folder ''T1_corrected_canonical.nii_toMag_transform.tfm''"
  define mag where "mag = join registered_folder ''mag_canonical.nii.gz''"
  define out where "out = join registered_folder ''lesions_MSpace_Mask.nii.gz''"
  obtain r2 w2 where run: "apply_transform_to_mask lib lesion mag tm (Some out) w1 = (r2, w2)"
    by (cases "apply_transform_to_mask lib lesion mag tm (Some out) w1")
  have "extends_trace w w1" by (simp add: extends_trace_refl print_line_def w1_def)
  moreover have "extends_trace w1 w2"
    using apply_transform_to_mask_extends [of w1 lib lesion mag tm "Some out"] run by simp
  ultimately have e2: "extends_trace w w2" by (rule extends_trace_trans)
  have skip: "extends_trace w (print_line s w)" for s
    by (simp add: extends_trace_refl print_line_def)
  show ?thesis
  proof (cases "isfile w tm \<and> isfile w mag")
    case True
    with run e2 show ?thesis
      unfolding transform_lesion_labels_in_registered_folder_def Let_def
        mspace_apply_transform_to_mask_eq w1_def tm_def mag_def out_def
      by (cases r2) simp_all
  next
    case False
    with skip show ?thesis
      unfolding transform_lesion_labels_in_registered_folder_def Let_def tm_def mag_def
      by auto
  qed
qed


section \<open>Facts about the resampler\<close>

lemma indices_iff: "idx \<in> set (indices sz) \<longleftrightarrow> list_all2 (<) idx sz"
proof (induction sz arbitrary: idx)
  case Nil
  then show ?case by simp
next
  case (Cons n ns)
  show ?case
  proof (cases idx)
    case Nil
    then show ?thesis by auto
  next
    case (Cons i rest)
    have "(i # rest \<in> (#) x ` set (indices ns)) \<longleftrightarrow> (x = i \<and> rest \<in> set (indices ns))" for x
      by auto
    then show ?thesis
      using Cons Cons.IH [of rest] by auto
  qed
qed

lemma nearest_index_on_grid:
  assumes "IsInsideBuffer src c"
  shows "nearest_index c \<in> set (indices (Size src))"
proof -
  from assms have "list_all2 (\<lambda>x n. nat (round_half_down x) < n) c (Size src)"
    unfolding IsInsideBuffer_def by (rule list_all2_mono) linarith
  then show ?thesis
    by (simp add: indices_iff nearest_index_def list_all2_map1)
qed

lemma ResampleImageFilter_Execute_Inr:
  assumes "ResampleImageFilter_Execute lib resampler src = Inr out"
  shows "length (Size src) = length (Size (ReferenceImage resampler))"
    and "PixelID out = PixelID src"
    and "Size out = Size (ReferenceImage resampler)"
    and "Origin out = Origin (ReferenceImage resampler)"
    and "Spacing out = Spacing (ReferenceImage resampler)"
    and "Direction out = Direction (ReferenceImage resampler)"
    and "Pixel out idx =
          (let c = SourceContinuousIndex lib (ReferenceImage resampler)
                     (ResampleTransform resampler) src idx
           in if IsInsideBuffer src c
              then Evaluate lib (ResampleInterpolator resampler) src c
              else DefaultPixelValue resampler)"
  using assms
  by (auto simp: ResampleImageFilter_Execute_def Let_def split: if_splits)

lemma nearest_neighbour_values:
  assumes "ResampleImageFilter_Execute lib resampler src = Inr out"
    and "ResampleInterpolator resampler = sitkNearestNeighbor"
  shows "Pixel out idx \<in> insert (DefaultPixelValue resampler) (label_values src)"
proof -
  let ?c = "SourceContinuousIndex lib (ReferenceImage resampler)
              (ResampleTransform resampler) src idx"
  show ?thesis
  proof (cases "IsInsideBuffer src ?c")
    case True
    then have "Pixel src (nearest_index ?c) \<in> label_values src"
      unfolding label_values_def by (intro imageI nearest_index_on_grid)
    with True assms show ?thesis
      by (simp add: ResampleImageFilter_Execute_Inr Evaluate_def)
  next
    case False
    with assms show ?thesis by (simp add: ResampleImageFilter_Execute_Inr)
  qed
qed

lemma nearest_neighbour_labels:
  assumes "ResampleImageFilter_Execute lib resampler src = Inr out"
    and "ResampleInterpolator resampler = sitkNearestNeighbor"
  shows "label_values out \<subseteq> insert (DefaultPixelValue resampler) (label_values src)"
  using nearest_neighbour_values [OF assms] by (auto simp: label_values_def)


lemma fills_with_zero_trace:
  "extends_trace w w' \<Longrightarrow> list_all fills_with_zero (new_calls w w')"
proof -
  have "fills_with_zero c" if "issued_by_scripts c" for c
    using that by (cases c) (simp_all add: issued_by_scripts_def fills_with_zero_def)
  then show "extends_trace w w' \<Longrightarrow> list_all fills_with_zero (new_calls w w')"
    by (auto simp: extends_trace_def list_all_iff)
qed

section \<open>Facts about the centred initialisation\<close>

lemma offset_of_shifted:
  "length a = length d \<Longrightarrow> length d = length v \<Longrightarrow>
   map2 (-) (map2 (+) (map2 (+) a d) v) (map2 (+) a v) = (d :: real list)"
  by (induction a d v rule: list_induct3) auto

lemma length_mat_vec: "length (mat_vec m v) = length m"
  by (simp add: mat_vec_def)


section \<open>Facts about the pipeline as a whole\<close>

lemma main_registration_pipeline_success:
  assumes "main_registration_pipeline lib t1 flair mag mask_path w = (Inr result, w')"
  obtains registered_t1 tm w1 transformed_mask w2 registered_flair where
    "register_t1_to_magnitude lib t1 mag None None False w = (Inr (registered_t1, tm), w1)"
    "apply_transform_to_mask lib mask_path mag tm None w1 = (Inr transformed_mask, w2)"
    "apply_transform_to_flair lib flair mag tm None w2 = (Inr registered_flair, w')"
    "result = (registered_t1, transformed_mask, registered_flair)"
  using assms unfolding main_registration_pipeline_def
  by (auto split: sum.splits prod.splits)

lemma ReadTransform_stored:
  "files w p = Some (TransformFile t) \<Longrightarrow> ReadTransform w p = Inr t' \<Longrightarrow> t' = t"
  by (simp add: ReadTransform_def)

lemma tfm_not_nii_gz: "a @ ''_toMag.nii.gz'' \<noteq> b @ ''_toMag_transform.tfm''"
proof
  assume "a @ ''_toMag.nii.gz'' = b @ ''_toMag_transform.tfm''"
  then have "last (a @ ''_toMag.nii.gz'') = last (b @ ''_toMag_transform.tfm'')" by simp
  then show False by simp
qed

lemma lesion_mask_not_tfm:
  "join folder ''lesions_MSpace_Mask.nii.gz''
     \<noteq> join folder' ''T1_corrected_canonical.nii_toMag_transform.tfm''"
proof
  assume eq: "join folder ''lesions_MSpace_Mask.nii.gz''
     = join folder' ''T1_corrected_canonical.nii_toMag_transform.tfm''"
  have "last (join folder ''lesions_MSpace_Mask.nii.gz'') = CHR ''z''"
    by (simp add: join_relative)
  moreover have "last (join folder' ''T1_corrected_canonical.nii_toMag_transform.tfm'') = CHR ''m''"
    by (simp add: join_relative)
  ultimately show False using eq by simp
qed

text \<open>An application of a stored transform, whatever its outcome.\<close>

lemma apply_transform_to_mask_stored:
  assumes "files w tm = Some (TransformFile t)"
  shows "list_all (applies_only t)
           (new_calls w (snd (apply_transform_to_mask lib mask_path mag tm om w)))"
  using apply_transform_to_mask_trace [of lib mask_path mag tm om w] assms
  by (elim disjE exE conjE)
     (auto simp: new_calls_def applies_only_def dest: ReadTransform_stored)

lemma apply_transform_to_mask_files:
  "files (snd (apply_transform_to_mask lib mask_path mag tm (Some out) w)) q = files w q \<or> q = out"
  unfolding apply_transform_to_mask_def resampler_Execute_def WriteImage_def Let_def
  by (auto split: sum.splits prod.splits if_splits)


section \<open>Facts about replacing the optimiser\<close>

lemma ReadImage_other_optimiser:
  "ReadImage (lib\<lparr>RegistrationExecute := f\<rparr>) = ReadImage lib"
  by (intro ext) (simp add: ReadImage_def split: option.splits stored_file.splits)

lemma Evaluate_other_optimiser:
  "Evaluate (lib\<lparr>RegistrationExecute := f\<rparr>) = Evaluate lib"
  by (intro ext) (simp add: Evaluate_def split: InterpolatorEnum.splits)

lemma SourceContinuousIndex_other_optimiser:
  "SourceContinuousIndex (lib\<lparr>RegistrationExecute := f\<rparr>) = SourceContinuousIndex lib"
  by simp

lemma resampler_Execute_other_optimiser:
  "resampler_Execute (lib\<lparr>RegistrationExecute := f\<rparr>) = resampler_Execute lib"
  by (intro ext)
     (unfold resampler_Execute_def ResampleImageFilter_Execute_def Evaluate_other_optimiser
        SourceContinuousIndex_other_optimiser, rule refl)

lemma WriteImage_other_optimiser:
  "WriteImage (lib\<lparr>RegistrationExecute := f\<rparr>) = WriteImage lib"
  by (intro ext) (simp add: WriteImage_def)

lemma WriteTransform_other_optimiser:
  "WriteTransform (lib\<lparr>RegistrationExecute := f\<rparr>) = WriteTransform lib"
  by (intro ext) (simp add: WriteTransform_def)

lemma ImageRegistrationMethod_Execute_flag:
  "ImageRegistrationMethod_Execute
     (lib\<lparr>RegistrationExecute :=
            (\<lambda>m fixed moving.
               case RegistrationExecute lib m fixed moving of
                 Inl msg \<Rightarrow> Inl msg
               | Inr (final, converged) \<Rightarrow> Inr (final, flag))\<rparr>) m fixed moving w
   = ImageRegistrationMethod_Execute lib m fixed moving w"
  by (simp add: ImageRegistrationMethod_Execute_def split: sum.splits prod.splits)


section \<open>Facts about the interpolator of each function\<close>













section \<open>Facts about the lesion-label step\<close>

lemma apply_transform_to_mask_calls:
  assumes "ReadImage lib w mag sitkFloat32 = Inr fixed"
    and "ReadImage lib w mask_path sitkUInt8 = Inr img"
    and "ReadTransform w tm = Inr t"
  shows "calls (snd (apply_transform_to_mask lib mask_path mag tm om w)) = calls w @
           [ResampleCall \<lparr>ReferenceImage = fixed, ResampleInterpolator = sitkNearestNeighbor,
                          DefaultPixelValue = 0, ResampleTransform = t\<rparr> img]"
  using assms
  unfolding apply_transform_to_mask_def resampler_Execute_def WriteImage_def Let_def
  by (auto split: sum.splits prod.splits if_splits)

lemma ReadImage_print_line: "ReadImage lib (print_line s w) = ReadImage lib w"
  by (intro ext) (simp add: ReadImage_def print_line_def)

lemma ReadTransform_print_line: "ReadTransform (print_line s w) = ReadTransform w"
  by (intro ext) (simp add: ReadTransform_def print_line_def)

lemma lesion_step_applies_stored_transform:
  assumes stored: "files w (join registered_folder
                     ''T1_corrected_canonical.nii_toMag_transform.tfm'') = Some (TransformFile t)"
    and ref: "ReadImage lib w (join registered_folder ''mag_canonical.nii.gz'') sitkFloat32
                = Inr ref"
    and img: "ReadImage lib w lesion sitkUInt8 = Inr img"
  shows "new_calls w
           (snd (transform_lesion_labels_in_registered_folder lib lesion folder_name
                   registered_folder w))
         = [ResampleCall \<lparr>ReferenceImage = ref, ResampleInterpolator = sitkNearestNeighbor,
                          DefaultPixelValue = 0, ResampleTransform = t\<rparr> img]"
proof -
  define w1 where "w1 = print_line (''  Applying transform for year folder: '' @ folder_name) w"
  define tm where "tm = join registered_folder ''T1_corrected_canonical.nii_toMag_transform.tfm''"
  define mag where "mag = join registered_folder ''mag_canonical.nii.gz''"
  define out where "out = join registered_folder ''lesions_MSpace_Mask.nii.gz''"
  have present: "isfile w tm" "isfile w mag"
    using stored ref
    by (auto simp: isfile_def ReadImage_def tm_def mag_def split: option.splits)
  have "ReadTransform w tm = Inr t" using stored by (simp add: ReadTransform_def tm_def)
  then have rt: "ReadTransform w1 tm = Inr t" by (simp add: w1_def ReadTransform_print_line)
  have r1: "ReadImage lib w1 mag sitkFloat32 = Inr ref"
    using ref by (simp add: w1_def mag_def ReadImage_print_line)
  have r2: "ReadImage lib w1 lesion sitkUInt8 = Inr img"
    using img by (simp add: w1_def ReadImage_print_line)
  have c1: "calls w1 = calls w" by (simp add: w1_def print_line_def)
  have applied: "new_calls w (snd (apply_transform_to_mask lib lesion mag tm (Some out) w1))
         = [ResampleCall \<lparr>ReferenceImage = ref, ResampleInterpolator = sitkNearestNeighbor,
                          DefaultPixelValue = 0, ResampleTransform = t\<rparr> img]"
    using apply_transform_to_mask_calls [OF r1 r2 rt, of "Some out"]
    by (simp add: new_calls_def c1)
  from present applied show ?thesis
    unfolding transform_lesion_labels_in_registered_folder_def Let_def
      mspace_apply_transform_to_mask_eq w1_def tm_def mag_def out_def
    by (auto split: prod.splits sum.splits)
qed


section \<open>The claims\<close>




text \<open>
  C2.  When the pipeline returns, the transform that the optimiser returned is the one
  stored under the transform path, and it is the transform of every resampling of the run:
  of T1, of the mask and of FLAIR, with one registration before them and none after.  A
  later run of the lesion-label step, in any state of the files where the transform file
  still holds that transform, resamples with that transform only, runs no registration and
  leaves the transform file as it is; when the magnitude image and the label file can be
  read there, it performs exactly one resampling: of the label image as read, on the
  magnitude image as reference, with nearest neighbour, through that transform.
\<close>

theorem persisted_transform_is_reused:
  assumes "main_registration_pipeline lib t1_path flair magnitude_path mask_path w
             = (Inr result, w')"
  shows "\<exists>fixed moving final_transform converged ref_mask mask_image ref_flair flair_image.
      RegistrationExecute lib (registration_method (initial_transform False fixed moving))
        fixed moving = Inr (final_transform, converged) \<and>
      new_calls w w' =
        [RegistrationCall (registration_method (initial_transform False fixed moving))
           fixed moving,
         ResampleCall \<lparr>ReferenceImage = fixed, ResampleInterpolator = sitkLinear,
                       DefaultPixelValue = 0, ResampleTransform = final_transform\<rparr> moving,
         ResampleCall \<lparr>ReferenceImage = ref_mask, ResampleInterpolator = sitkNearestNeighbor,
                       DefaultPixelValue = 0, ResampleTransform = final_transform\<rparr> mask_image,
         ResampleCall \<lparr>ReferenceImage = ref_flair, ResampleInterpolator = sitkLinear,
                       DefaultPixelValue = 0, ResampleTransform = final_transform\<rparr> flair_image] \<and>
      files w' (fst (splitext t1_path) @ ''_toMag_transform.tfm'')
        = Some (TransformFile final_transform) \<and>
      (\<forall>later lesion_label_file folder_name registered_folder.
         files later (join registered_folder ''T1_corrected_canonical.nii_toMag_transform.tfm'')
           = Some (TransformFile final_transform) \<longrightarrow>
         list_all (applies_only final_transform)
           (new_calls later
              (snd (transform_lesion_labels_in_registered_folder lib lesion_label_file
                      folder_name registered_folder later))) \<and>
         files (snd (transform_lesion_labels_in_registered_folder lib lesion_label_file
                       folder_name registered_folder later))
               (join registered_folder ''T1_corrected_canonical.nii_toMag_transform.tfm'')
           = Some (TransformFile final_transform) \<and>
         (\<forall>ref label_image.
            ReadImage lib later (join registered_folder ''mag_canonical.nii.gz'') sitkFloat32
              = Inr ref \<and>
            ReadImage lib later lesion_label_file sitkUInt8 = Inr label_image \<longrightarrow>
            new_calls later
              (snd (transform_lesion_labels_in_registered_folder lib lesion_label_file
                      folder_name registered_folder later))
            = [ResampleCall \<lparr>ReferenceImage = ref,
                              ResampleInterpolator = sitkNearestNeighbor,
                              DefaultPixelValue = 0,
                              ResampleTransform = final_transform\<rparr> label_image]))"
proof -
  let ?tm = "fst (splitext t1_path) @ ''_toMag_transform.tfm''"
  from assms obtain registered_t1 tm w1 transformed_mask w2 registered_flair where
    reg: "register_t1_to_magnitude lib t1_path magnitude_path None None False w
            = (Inr (registered_t1, tm), w1)" and
    msk: "apply_transform_to_mask lib mask_path magnitude_path tm None w1
            = (Inr transformed_mask, w2)" and
    flr: "apply_transform_to_flair lib flair magnitude_path tm None w2
            = (Inr registered_flair, w')"
    by (rule main_registration_pipeline_success)
  from reg obtain fixed moving T conv registered where
    exec: "RegistrationExecute lib (registration_method (initial_transform False fixed moving))
             fixed moving = Inr (T, conv)" and
    tm: "tm = ?tm" and
    files1: "files w1 = (files w)(registered_t1 \<mapsto> ImageFile registered, tm \<mapsto> TransformFile T)" and
    calls1: "calls w1 = calls w @
              [RegistrationCall (registration_method (initial_transform False fixed moving))
                 fixed moving,
               ResampleCall \<lparr>ReferenceImage = fixed, ResampleInterpolator = sitkLinear,
                             DefaultPixelValue = 0, ResampleTransform = T\<rparr> moving]"
    by (elim register_success) simp
  from msk obtain ref_mask mask_image T2 resampled_mask where
    rt2: "ReadTransform w1 tm = Inr T2" and
    out2: "transformed_mask = fst (splitext mask_path) @ ''_toMag.nii.gz''" and
    files2: "files w2 = (files w1)(transformed_mask \<mapsto> ImageFile resampled_mask)" and
    calls2: "calls w2 = calls w1 @
              [ResampleCall \<lparr>ReferenceImage = ref_mask, ResampleInterpolator = sitkNearestNeighbor,
                             DefaultPixelValue = 0, ResampleTransform = T2\<rparr> mask_image]"
    by (elim apply_transform_to_mask_success) simp
  from flr obtain ref_flair flair_image T3 resampled_flair where
    rt3: "ReadTransform w2 tm = Inr T3" and
    out3: "registered_flair = fst (splitext flair) @ ''_toMag.nii.gz''" and
    files3: "files w' = (files w2)(registered_flair \<mapsto> ImageFile resampled_flair)" and
    calls3: "calls w' = calls w2 @
              [ResampleCall \<lparr>ReferenceImage = ref_flair, ResampleInterpolator = sitkLinear,
                             DefaultPixelValue = 0, ResampleTransform = T3\<rparr> flair_image]"
    by (elim apply_transform_to_flair_success) simp
  have stored1: "files w1 tm = Some (TransformFile T)" by (simp add: files1)
  have "transformed_mask \<noteq> tm" unfolding out2 tm by (rule tfm_not_nii_gz)
  then have stored2: "files w2 tm = Some (TransformFile T)" by (simp add: files2 stored1)
  have "registered_flair \<noteq> tm" unfolding out3 tm by (rule tfm_not_nii_gz)
  then have stored3: "files w' ?tm = Some (TransformFile T)"
    using stored2 by (simp add: files3 tm)
  have T2: "T2 = T" using stored1 rt2 by (rule ReadTransform_stored)
  have T3: "T3 = T" using stored2 rt3 by (rule ReadTransform_stored)
  have trace: "new_calls w w' =
        [RegistrationCall (registration_method (initial_transform False fixed moving))
           fixed moving,
         ResampleCall \<lparr>ReferenceImage = fixed, ResampleInterpolator = sitkLinear,
                       DefaultPixelValue = 0, ResampleTransform = T\<rparr> moving,
         ResampleCall \<lparr>ReferenceImage = ref_mask, ResampleInterpolator = sitkNearestNeighbor,
                       DefaultPixelValue = 0, ResampleTransform = T\<rparr> mask_image,
         ResampleCall \<lparr>ReferenceImage = ref_flair, ResampleInterpolator = sitkLinear,
                       DefaultPixelValue = 0, ResampleTransform = T\<rparr> flair_image]"
    by (simp add: new_calls_def calls1 calls2 calls3 T2 T3)
  have lesion_safe: "list_all (applies_only T)
           (new_calls later
              (snd (transform_lesion_labels_in_registered_folder lib lesion_label_file
                      folder_name registered_folder later))) \<and>
         files (snd (transform_lesion_labels_in_registered_folder lib lesion_label_file
                       folder_name registered_folder later))
               (join registered_folder ''T1_corrected_canonical.nii_toMag_transform.tfm'')
           = Some (TransformFile T)"
    if stored: "files later (join registered_folder ''T1_corrected_canonical.nii_toMag_transform.tfm'')
           = Some (TransformFile T)"
    for later lesion_label_file folder_name registered_folder
  proof -
    define tfm where "tfm = join registered_folder ''T1_corrected_canonical.nii_toMag_transform.tfm''"
    define mag where "mag = join registered_folder ''mag_canonical.nii.gz''"
    define out where "out = join registered_folder ''lesions_MSpace_Mask.nii.gz''"
    define later1 where
      "later1 = print_line (''  Applying transform for year folder: '' @ folder_name) later"
    have s1: "files later1 tfm = Some (TransformFile T)"
      using stored by (simp add: later1_def print_line_def tfm_def)
    have c1: "calls later1 = calls later" by (simp add: later1_def print_line_def)
    have "out \<noteq> tfm" unfolding out_def tfm_def by (rule lesion_mask_not_tfm)
    with apply_transform_to_mask_files [of lib lesion_label_file mag tfm out later1 tfm] s1
    have kept: "files (snd (apply_transform_to_mask lib lesion_label_file mag tfm (Some out) later1))
                  tfm = Some (TransformFile T)"
      by auto
    have only: "list_all (applies_only T)
        (new_calls later (snd (apply_transform_to_mask lib lesion_label_file mag tfm (Some out) later1)))"
      using apply_transform_to_mask_stored [OF s1, of lib lesion_label_file mag "Some out"]
      by (simp add: new_calls_def c1)
    show ?thesis
    proof (cases "isfile later tfm \<and> isfile later mag")
      case True
      with kept only show ?thesis
        unfolding transform_lesion_labels_in_registered_folder_def Let_def
          mspace_apply_transform_to_mask_eq tfm_def mag_def out_def later1_def
        by (auto split: prod.splits sum.splits)
    next
      case False
      with stored show ?thesis
        unfolding transform_lesion_labels_in_registered_folder_def Let_def tfm_def mag_def
        by (auto simp: print_line_def new_calls_def)
    qed
  qed
  have lesion: "list_all (applies_only T)
           (new_calls later
              (snd (transform_lesion_labels_in_registered_folder lib lesion_label_file
                      folder_name registered_folder later))) \<and>
         files (snd (transform_lesion_labels_in_registered_folder lib lesion_label_file
                       folder_name registered_folder later))
               (join registered_folder ''T1_corrected_canonical.nii_toMag_transform.tfm'')
           = Some (TransformFile T) \<and>
         (\<forall>ref label_image.
            ReadImage lib later (join registered_folder ''mag_canonical.nii.gz'') sitkFloat32
              = Inr ref \<and>
            ReadImage lib later lesion_label_file sitkUInt8 = Inr label_image \<longrightarrow>
            new_calls later
              (snd (transform_lesion_labels_in_registered_folder lib lesion_label_file
                      folder_name registered_folder later))
            = [ResampleCall \<lparr>ReferenceImage = ref,
                              ResampleInterpolator = sitkNearestNeighbor,
                              DefaultPixelValue = 0,
                              ResampleTransform = T\<rparr> label_image])"
    if stored: "files later (join registered_folder ''T1_corrected_canonical.nii_toMag_transform.tfm'')
           = Some (TransformFile T)"
    for later lesion_label_file folder_name registered_folder
    using lesion_safe [OF stored] lesion_step_applies_stored_transform [OF stored]
    by blast
  show ?thesis
  proof (intro exI conjI)
    show "RegistrationExecute lib (registration_method (initial_transform False fixed moving))
            fixed moving = Inr (T, conv)"
      by (rule exec)
    show "new_calls w w' =
        [RegistrationCall (registration_method (initial_transform False fixed moving))
           fixed moving,
         ResampleCall \<lparr>ReferenceImage = fixed, ResampleInterpolator = sitkLinear,
                       DefaultPixelValue = 0, ResampleTransform = T\<rparr> moving,
         ResampleCall \<lparr>ReferenceImage = ref_mask, ResampleInterpolator = sitkNearestNeighbor,
                       DefaultPixelValue = 0, ResampleTransform = T\<rparr> mask_image,
         ResampleCall \<lparr>ReferenceImage = ref_flair, ResampleInterpolator = sitkLinear,
                       DefaultPixelValue = 0, ResampleTransform = T\<rparr> flair_image]"
      by (rule trace)
    show "files w' ?tm = Some (TransformFile T)" by (rule stored3)
    show "\<forall>later lesion_label_file folder_name registered_folder.
         files later (join registered_folder ''T1_corrected_canonical.nii_toMag_transform.tfm'')
           = Some (TransformFile T) \<longrightarrow>
         list_all (applies_only T)
           (new_calls later
              (snd (transform_lesion_labels_in_registered_folder lib lesion_label_file
                      folder_name registered_folder later))) \<and>
         files (snd (transform_lesion_labels_in_registered_folder lib lesion_label_file
                       folder_name registered_folder later))
               (join registered_folder ''T1_corrected_canonical.nii_toMag_transform.tfm'')
           = Some (TransformFile T) \<and>
         (\<forall>ref label_image.
            ReadImage lib later (join registered_folder ''mag_canonical.nii.gz'') sitkFloat32
              = Inr ref \<and>
            ReadImage lib later lesion_label_file sitkUInt8 = Inr label_image \<longrightarrow>
            new_calls later
              (snd (transform_lesion_labels_in_registered_folder lib lesion_label_file
                      folder_name registered_folder later))
            = [ResampleCall \<lparr>ReferenceImage = ref,
                              ResampleInterpolator = sitkNearestNeighbor,
                              DefaultPixelValue = 0,
                              ResampleTransform = T\<rparr> label_image])"
      using lesion by (intro allI impI)
  qed
qed

theorem persisted_transform_is_reused_witness:
  "\<exists>final_transform ref label_image.
     files (snd (main_registration_pipeline (example_sitk True)
                   ''reg/T1_corrected_canonical.nii.gz'' ''reg/FLAIR.nii.gz''
                   ''reg/mag_canonical.nii.gz'' ''reg/mask.nii.gz'' example_world))
           (join ''reg'' ''T1_corrected_canonical.nii_toMag_transform.tfm'')
       = Some (TransformFile final_transform) \<and>
     list_all (applies_only final_transform)
       (new_calls
          (snd (main_registration_pipeline (example_sitk True)
                  ''reg/T1_corrected_canonical.nii.gz'' ''reg/FLAIR.nii.gz''
                  ''reg/mag_canonical.nii.gz'' ''reg/mask.nii.gz'' example_world))
          (snd (transform_lesion_labels_in_registered_folder (example_sitk True)
                  ''lesion_labels.nii.gz'' ''2020'' ''reg''
                  (snd (main_registration_pipeline (example_sitk True)
                          ''reg/T1_corrected_canonical.nii.gz'' ''reg/FLAIR.nii.gz''
                          ''reg/mag_canonical.nii.gz'' ''reg/mask.nii.gz'' example_world))))) \<and>
     new_calls
       (snd (main_registration_pipeline (example_sitk True)
               ''reg/T1_corrected_canonical.nii.gz'' ''reg/FLAIR.nii.gz''
               ''reg/mag_canonical.nii.gz'' ''reg/mask.nii.gz'' example_world))
       (snd (transform_lesion_labels_in_registered_folder (example_sitk True)
               ''lesion_labels.nii.gz'' ''2020'' ''reg''
               (snd (main_registration_pipeline (example_sitk True)
                       ''reg/T1_corrected_canonical.nii.gz'' ''reg/FLAIR.nii.gz''
                       ''reg/mag_canonical.nii.gz'' ''reg/mask.nii.gz'' example_world))))
     = [ResampleCall \<lparr>ReferenceImage = ref, ResampleInterpolator = sitkNearestNeighbor,
                      DefaultPixelValue = 0, ResampleTransform = final_transform\<rparr>
          label_image]"
proof -
  let ?run = "main_registration_pipeline (example_sitk True)
                ''reg/T1_corrected_canonical.nii.gz'' ''reg/FLAIR.nii.gz''
                ''reg/mag_canonical.nii.gz'' ''reg/mask.nii.gz'' example_world"
  have "fst ?run = Inr (''reg/T1_corrected_canonical.nii_toMag.nii.gz'',
                        ''reg/mask.nii_toMag.nii.gz'', ''reg/FLAIR.nii_toMag.nii.gz'')"
    by (simp add: main_registration_pipeline_def apply_transform_to_mask_def
        apply_transform_to_flair_def register_t1_to_magnitude_def example_world_def
        example_sitk_def ReadImage_def ReadTransform_def splitext_def rfind_def
        ImageRegistrationMethod_Execute_def resampler_Execute_def
        ResampleImageFilter_Execute_def WriteImage_def WriteTransform_def example_image_def
        Let_def)
  then have run: "?run = (Inr (''reg/T1_corrected_canonical.nii_toMag.nii.gz'',
                        ''reg/mask.nii_toMag.nii.gz'', ''reg/FLAIR.nii_toMag.nii.gz''), snd ?run)"
    by (simp add: prod_eq_iff)
  have p: "fst (splitext ''reg/T1_corrected_canonical.nii.gz'') @ ''_toMag_transform.tfm''
             = join ''reg'' ''T1_corrected_canonical.nii_toMag_transform.tfm''"
    by (simp add: splitext_def rfind_def join_def)
  have "\<exists>ref. ReadImage (example_sitk True) (snd ?run) (join ''reg'' ''mag_canonical.nii.gz'')
                 sitkFloat32 = Inr ref"
    by (simp add: main_registration_pipeline_def apply_transform_to_mask_def
        apply_transform_to_flair_def register_t1_to_magnitude_def example_world_def
        example_sitk_def ReadImage_def ReadTransform_def splitext_def rfind_def join_def
        ImageRegistrationMethod_Execute_def resampler_Execute_def
        ResampleImageFilter_Execute_def WriteImage_def WriteTransform_def example_image_def
        Let_def)
  then obtain ref where
    ref: "ReadImage (example_sitk True) (snd ?run) (join ''reg'' ''mag_canonical.nii.gz'')
            sitkFloat32 = Inr ref" ..
  have "\<exists>img. ReadImage (example_sitk True) (snd ?run) ''lesion_labels.nii.gz'' sitkUInt8
                 = Inr img"
    by (simp add: main_registration_pipeline_def apply_transform_to_mask_def
        apply_transform_to_flair_def register_t1_to_magnitude_def example_world_def
        example_sitk_def ReadImage_def ReadTransform_def splitext_def rfind_def
        ImageRegistrationMethod_Execute_def resampler_Execute_def
        ResampleImageFilter_Execute_def WriteImage_def WriteTransform_def example_image_def
        Let_def)
  then obtain img where
    img: "ReadImage (example_sitk True) (snd ?run) ''lesion_labels.nii.gz'' sitkUInt8
            = Inr img" ..
  from persisted_transform_is_reused [OF run] obtain T where
    stored: "files (snd ?run)
               (fst (splitext ''reg/T1_corrected_canonical.nii.gz'') @ ''_toMag_transform.tfm'')
             = Some (TransformFile T)" and
    later: "\<forall>later lesion_label_file folder_name registered_folder.
         files later (join registered_folder ''T1_corrected_canonical.nii_toMag_transform.tfm'')
           = Some (TransformFile T) \<longrightarrow>
         list_all (applies_only T)
           (new_calls later
              (snd (transform_lesion_labels_in_registered_folder (example_sitk True)
                      lesion_label_file folder_name registered_folder later))) \<and>
         files (snd (transform_lesion_labels_in_registered_folder (example_sitk True)
                       lesion_label_file folder_name registered_folder later))
               (join registered_folder ''T1_corrected_canonical.nii_toMag_transform.tfm'')
           = Some (TransformFile T) \<and>
         (\<forall>ref label_image.
            ReadImage (example_sitk True) later (join registered_folder ''mag_canonical.nii.gz'')
              sitkFloat32 = Inr ref \<and>
            ReadImage (example_sitk True) later lesion_label_file sitkUInt8 = Inr label_image
            \<longrightarrow>
            new_calls later
              (snd (transform_lesion_labels_in_registered_folder (example_sitk True)
                      lesion_label_file folder_name registered_folder later))
            = [ResampleCall \<lparr>ReferenceImage = ref,
                              ResampleInterpolator = sitkNearestNeighbor,
                              DefaultPixelValue = 0,
                              ResampleTransform = T\<rparr> label_image])"
    by blast
  from stored have stored': "files (snd ?run)
      (join ''reg'' ''T1_corrected_canonical.nii_toMag_transform.tfm'') = Some (TransformFile T)"
    by (simp only: p)
  note step = later [rule_format, OF stored']
  from step [THEN conjunct1] step [THEN conjunct2, THEN conjunct2, rule_format, OF conjI, OF ref img]
    stored'
  show ?thesis by blast
qed

text \<open>
  C3 (amended).  \<^verbatim>\<open>register_t1_to_magnitude\<close> checks neither the voxel count nor the
  intensity variance of its inputs nor the determinant of the estimated transform, and
  raises no error of its own: it returns exactly when its library calls succeed (both images
  are read, the optimiser returns a transform, the grids have the same dimension, both
  output paths can be written), and then the transform is stored as the optimiser returned
  it.  When it raises, \<^verbatim>\<open>main_registration_pipeline\<close> ends with the same error in the state
  the registration left, so that no dependent is read or resampled.
\<close>

theorem estimate_fails_only_when_library_fails:
  "((\<exists>paths w'. register_t1_to_magnitude lib t1_path magnitude_path out_matrix out_registered
                  rigid w = (Inr paths, w')) \<longleftrightarrow>
    (\<exists>fixed moving final_transform converged.
       ReadImage lib w magnitude_path sitkFloat32 = Inr fixed \<and>
       ReadImage lib w t1_path sitkFloat32 = Inr moving \<and>
       RegistrationExecute lib (registration_method (initial_transform rigid fixed moving))
         fixed moving = Inr (final_transform, converged) \<and>
       length (Size moving) = length (Size fixed) \<and>
       Writable lib (case out_registered of
                       None \<Rightarrow> fst (splitext t1_path) @ ''_toMag.nii.gz''
                     | Some given \<Rightarrow> given) \<and>
       Writable lib (case out_matrix of
                       None \<Rightarrow> fst (splitext t1_path) @ ''_toMag_transform.tfm''
                     | Some given \<Rightarrow> given))) \<and>
   (\<forall>paths w' fixed moving final_transform converged.
      register_t1_to_magnitude lib t1_path magnitude_path out_matrix out_registered rigid w
        = (Inr paths, w') \<and>
      ReadImage lib w magnitude_path sitkFloat32 = Inr fixed \<and>
      ReadImage lib w t1_path sitkFloat32 = Inr moving \<and>
      RegistrationExecute lib (registration_method (initial_transform rigid fixed moving))
         fixed moving = Inr (final_transform, converged) \<longrightarrow>
      files w' (snd paths) = Some (TransformFile final_transform)) \<and>
   (\<forall>e w1. register_t1_to_magnitude lib t1_path magnitude_path None None False w = (Inl e, w1) \<longrightarrow>
      main_registration_pipeline lib t1_path flair magnitude_path mask_path w = (Inl e, w1))"
proof (intro conjI allI impI iffI)
  assume "\<exists>paths w'. register_t1_to_magnitude lib t1_path magnitude_path out_matrix out_registered
                  rigid w = (Inr paths, w')"
  then obtain r m w' where
    "register_t1_to_magnitude lib t1_path magnitude_path out_matrix out_registered rigid w
       = (Inr (r, m), w')"
    by auto
  then show "\<exists>fixed moving final_transform converged.
       ReadImage lib w magnitude_path sitkFloat32 = Inr fixed \<and>
       ReadImage lib w t1_path sitkFloat32 = Inr moving \<and>
       RegistrationExecute lib (registration_method (initial_transform rigid fixed moving))
         fixed moving = Inr (final_transform, converged) \<and>
       length (Size moving) = length (Size fixed) \<and>
       Writable lib (case out_registered of
                       None \<Rightarrow> fst (splitext t1_path) @ ''_toMag.nii.gz''
                     | Some given \<Rightarrow> given) \<and>
       Writable lib (case out_matrix of
                       None \<Rightarrow> fst (splitext t1_path) @ ''_toMag_transform.tfm''
                     | Some given \<Rightarrow> given)"
    by (elim register_success) (auto dest: ResampleImageFilter_Execute_Inr(1))
next
  assume "\<exists>fixed moving final_transform converged.
       ReadImage lib w magnitude_path sitkFloat32 = Inr fixed \<and>
       ReadImage lib w t1_path sitkFloat32 = Inr moving \<and>
       RegistrationExecute lib (registration_method (initial_transform rigid fixed moving))
         fixed moving = Inr (final_transform, converged) \<and>
       length (Size moving) = length (Size fixed) \<and>
       Writable lib (case out_registered of
                       None \<Rightarrow> fst (splitext t1_path) @ ''_toMag.nii.gz''
                     | Some given \<Rightarrow> given) \<and>
       Writable lib (case out_matrix of
                       None \<Rightarrow> fst (splitext t1_path) @ ''_toMag_transform.tfm''
                     | Some given \<Rightarrow> given)"
  then show "\<exists>paths w'. register_t1_to_magnitude lib t1_path magnitude_path out_matrix
                  out_registered rigid w = (Inr paths, w')"
    unfolding register_t1_to_magnitude_def ImageRegistrationMethod_Execute_def
      resampler_Execute_def ResampleImageFilter_Execute_def WriteImage_def WriteTransform_def
      Let_def
    by (elim exE conjE) simp
next
  fix paths w' fixed moving final_transform converged
  assume a: "register_t1_to_magnitude lib t1_path magnitude_path out_matrix out_registered rigid w
        = (Inr paths, w') \<and>
      ReadImage lib w magnitude_path sitkFloat32 = Inr fixed \<and>
      ReadImage lib w t1_path sitkFloat32 = Inr moving \<and>
      RegistrationExecute lib (registration_method (initial_transform rigid fixed moving))
         fixed moving = Inr (final_transform, converged)"
  then have "register_t1_to_magnitude lib t1_path magnitude_path out_matrix out_registered rigid w
        = (Inr (fst paths, snd paths), w')"
    by simp
  then show "files w' (snd paths) = Some (TransformFile final_transform)"
    using a by (elim register_success) auto
next
  fix e w1
  assume "register_t1_to_magnitude lib t1_path magnitude_path None None False w = (Inl e, w1)"
  then show "main_registration_pipeline lib t1_path flair magnitude_path mask_path w = (Inl e, w1)"
    by (simp add: main_registration_pipeline_def)
qed

theorem estimate_fails_only_when_library_fails_witness:
  "main_registration_pipeline (example_sitk True) ''reg/T1_corrected_canonical.nii.gz''
     ''reg/FLAIR.nii.gz'' ''missing.nii.gz'' ''reg/mask.nii.gz'' example_world
   = (Inl (ReadImageError ''missing.nii.gz''), example_world) \<and>
   (\<exists>paths w'. register_t1_to_magnitude singular_sitk ''reg/T1_corrected_canonical.nii.gz''
                  ''reg/mag_canonical.nii.gz'' None None False degenerate_world
                = (Inr paths, w'))"
proof
  have "register_t1_to_magnitude (example_sitk True) ''reg/T1_corrected_canonical.nii.gz''
          ''missing.nii.gz'' None None False example_world
        = (Inl (ReadImageError ''missing.nii.gz''), example_world)"
    by (simp add: register_t1_to_magnitude_def ReadImage_def example_world_def)
  with estimate_fails_only_when_library_fails
         [where lib = "example_sitk True" and w = example_world, THEN conjunct2, THEN conjunct2]
  show "main_registration_pipeline (example_sitk True) ''reg/T1_corrected_canonical.nii.gz''
     ''reg/FLAIR.nii.gz'' ''missing.nii.gz'' ''reg/mask.nii.gz'' example_world
   = (Inl (ReadImageError ''missing.nii.gz''), example_world)"
    by blast
  have "\<exists>fixed moving final_transform converged.
       ReadImage singular_sitk degenerate_world ''reg/mag_canonical.nii.gz'' sitkFloat32
         = Inr fixed \<and>
       ReadImage singular_sitk degenerate_world ''reg/T1_corrected_canonical.nii.gz'' sitkFloat32
         = Inr moving \<and>
       RegistrationExecute singular_sitk
         (registration_method (initial_transform False fixed moving)) fixed moving
         = Inr (final_transform, converged) \<and>
       length (Size moving) = length (Size fixed) \<and>
       Writable singular_sitk
         (case None of
            None \<Rightarrow> fst (splitext ''reg/T1_corrected_canonical.nii.gz'') @ ''_toMag.nii.gz''
          | Some given \<Rightarrow> given) \<and>
       Writable singular_sitk
         (case None of
            None \<Rightarrow> fst (splitext ''reg/T1_corrected_canonical.nii.gz'') @ ''_toMag_transform.tfm''
          | Some given \<Rightarrow> given)"
    by (auto simp: ReadImage_def degenerate_world_def singular_sitk_def example_sitk_def
        constant_image_def)
  with estimate_fails_only_when_library_fails
         [where lib = singular_sitk and w = degenerate_world and rigid = False
            and out_matrix = None and out_registered = None, THEN conjunct1]
  show "\<exists>paths w'. register_t1_to_magnitude singular_sitk ''reg/T1_corrected_canonical.nii.gz''
                  ''reg/mag_canonical.nii.gz'' None None False degenerate_world
                = (Inr paths, w')"
    by blast
qed

text \<open>
  The claim as stated fails: with input images of a single voxel (no intensity variance)
  and an optimiser that returns a transform of determinant 0, the registration returns
  normally and stores that transform.
\<close>

theorem degenerate_registration_counterexample:
  "prod_list (Size constant_image) = 1 \<and>
   label_values constant_image = {3} \<and>
   det3 (Matrix singular_transform) = 0 \<and>
   fst (register_t1_to_magnitude singular_sitk ''reg/T1_corrected_canonical.nii.gz''
          ''reg/mag_canonical.nii.gz'' None None False degenerate_world)
     = Inr (''reg/T1_corrected_canonical.nii_toMag.nii.gz'',
            ''reg/T1_corrected_canonical.nii_toMag_transform.tfm'') \<and>
   files (snd (register_t1_to_magnitude singular_sitk ''reg/T1_corrected_canonical.nii.gz''
                 ''reg/mag_canonical.nii.gz'' None None False degenerate_world))
         ''reg/T1_corrected_canonical.nii_toMag_transform.tfm''
     = Some (TransformFile singular_transform)"
proof (intro conjI)
  show "prod_list (Size constant_image) = 1" by (simp add: constant_image_def)
  show "label_values constant_image = {3}" by (simp add: label_values_def constant_image_def)
  show "det3 (Matrix singular_transform) = 0" by (simp add: singular_transform_def)
  show "fst (register_t1_to_magnitude singular_sitk ''reg/T1_corrected_canonical.nii.gz''
          ''reg/mag_canonical.nii.gz'' None None False degenerate_world)
     = Inr (''reg/T1_corrected_canonical.nii_toMag.nii.gz'',
            ''reg/T1_corrected_canonical.nii_toMag_transform.tfm'')"
    by (simp add: register_t1_to_magnitude_def degenerate_world_def singular_sitk_def
        example_sitk_def ReadImage_def splitext_def rfind_def
        ImageRegistrationMethod_Execute_def resampler_Execute_def
        ResampleImageFilter_Execute_def WriteImage_def WriteTransform_def constant_image_def
        Let_def)
  show "files (snd (register_t1_to_magnitude singular_sitk ''reg/T1_corrected_canonical.nii.gz''
                 ''reg/mag_canonical.nii.gz'' None None False degenerate_world))
         ''reg/T1_corrected_canonical.nii_toMag_transform.tfm''
     = Some (TransformFile singular_transform)"
    by (simp add: register_t1_to_magnitude_def degenerate_world_def singular_sitk_def
        example_sitk_def ReadImage_def splitext_def rfind_def
        ImageRegistrationMethod_Execute_def resampler_Execute_def
        ResampleImageFilter_Execute_def WriteImage_def WriteTransform_def constant_image_def
        Let_def)
qed

text \<open>
  C4 (amended).  \<^verbatim>\<open>main_registration_pipeline\<close> applies the transform to the mask and
  then to FLAIR with no handling of failures: when the mask application raises after a
  successful registration, the pipeline ends with that error, nothing has been written or
  printed since the registration, and FLAIR is not processed.  The three output paths are
  returned only when all three stages returned.
\<close>

theorem dependent_failure_aborts_pipeline:
  "(\<forall>registered_t1 tm w1 e w2.
      register_t1_to_magnitude lib t1_path magnitude_path None None False w
        = (Inr (registered_t1, tm), w1) \<and>
      apply_transform_to_mask lib mask_path magnitude_path tm None w1 = (Inl e, w2) \<longrightarrow>
      main_registration_pipeline lib t1_path flair magnitude_path mask_path w = (Inl e, w2) \<and>
      files w2 = files w1 \<and> stdout w2 = stdout w1) \<and>
   (\<forall>result w'.
      main_registration_pipeline lib t1_path flair magnitude_path mask_path w = (Inr result, w') \<longrightarrow>
      (\<exists>tm w1 w2.
         register_t1_to_magnitude lib t1_path magnitude_path None None False w
           = (Inr (fst result, tm), w1) \<and>
         apply_transform_to_mask lib mask_path magnitude_path tm None w1
           = (Inr (fst (snd result)), w2) \<and>
         apply_transform_to_flair lib flair magnitude_path tm None w2
           = (Inr (snd (snd result)), w')))"
proof (intro conjI allI impI)
  fix registered_t1 tm w1 e w2
  assume a: "register_t1_to_magnitude lib t1_path magnitude_path None None False w
        = (Inr (registered_t1, tm), w1) \<and>
      apply_transform_to_mask lib mask_path magnitude_path tm None w1 = (Inl e, w2)"
  then show "main_registration_pipeline lib t1_path flair magnitude_path mask_path w = (Inl e, w2)"
    by (simp add: main_registration_pipeline_def)
  from a show "files w2 = files w1" "stdout w2 = stdout w1"
    by (auto dest: apply_transform_to_mask_failure)
next
  fix result w'
  assume "main_registration_pipeline lib t1_path flair magnitude_path mask_path w = (Inr result, w')"
  then show "\<exists>tm w1 w2.
         register_t1_to_magnitude lib t1_path magnitude_path None None False w
           = (Inr (fst result, tm), w1) \<and>
         apply_transform_to_mask lib mask_path magnitude_path tm None w1
           = (Inr (fst (snd result)), w2) \<and>
         apply_transform_to_flair lib flair magnitude_path tm None w2
           = (Inr (snd (snd result)), w')"
    by (elim main_registration_pipeline_success) auto
qed

theorem dependent_failure_aborts_pipeline_witness:
  "fst (main_registration_pipeline (example_sitk True) ''reg/T1_corrected_canonical.nii.gz''
          ''reg/FLAIR.nii.gz'' ''reg/mag_canonical.nii.gz'' ''reg/mask.nii.gz'' world_without_mask)
   = Inl (ReadImageError ''reg/mask.nii.gz'')"
proof -
  let ?reg = "register_t1_to_magnitude (example_sitk True) ''reg/T1_corrected_canonical.nii.gz''
                ''reg/mag_canonical.nii.gz'' None None False world_without_mask"
  let ?tm = "''reg/T1_corrected_canonical.nii_toMag_transform.tfm''"
  have "fst ?reg = Inr (''reg/T1_corrected_canonical.nii_toMag.nii.gz'', ?tm)"
    by (simp add: register_t1_to_magnitude_def world_without_mask_def example_world_def
        example_sitk_def ReadImage_def splitext_def rfind_def
        ImageRegistrationMethod_Execute_def resampler_Execute_def
        ResampleImageFilter_Execute_def WriteImage_def WriteTransform_def example_image_def
        Let_def)
  then have reg: "?reg = (Inr (''reg/T1_corrected_canonical.nii_toMag.nii.gz'', ?tm), snd ?reg)"
    by (simp add: prod_eq_iff)
  let ?msk = "apply_transform_to_mask (example_sitk True) ''reg/mask.nii.gz''
                ''reg/mag_canonical.nii.gz'' ?tm None (snd ?reg)"
  have "fst ?msk = Inl (ReadImageError ''reg/mask.nii.gz'')"
    by (simp add: apply_transform_to_mask_def register_t1_to_magnitude_def
        world_without_mask_def example_world_def
        example_sitk_def ReadImage_def splitext_def rfind_def
        ImageRegistrationMethod_Execute_def resampler_Execute_def
        ResampleImageFilter_Execute_def WriteImage_def WriteTransform_def example_image_def
        Let_def)
  then have msk: "?msk = (Inl (ReadImageError ''reg/mask.nii.gz''), snd ?msk)"
    by (simp add: prod_eq_iff)
  from dependent_failure_aborts_pipeline
         [where lib = "example_sitk True" and w = world_without_mask
            and flair = "''reg/FLAIR.nii.gz''", THEN conjunct1, rule_format, OF conjI, OF reg msk]
  show ?thesis by simp
qed

text \<open>
  The claim as stated fails: with the mask file missing and the FLAIR file present, the
  pipeline ends with the error of the mask, prints the lines of the registration and
  nothing else, and writes no resampled FLAIR.
\<close>

theorem missing_mask_counterexample:
  "isfile world_without_mask ''reg/FLAIR.nii.gz'' \<and>
   fst (main_registration_pipeline (example_sitk True) ''reg/T1_corrected_canonical.nii.gz''
          ''reg/FLAIR.nii.gz'' ''reg/mag_canonical.nii.gz'' ''reg/mask.nii.gz'' world_without_mask)
     = Inl (ReadImageError ''reg/mask.nii.gz'') \<and>
   stdout (snd (main_registration_pipeline (example_sitk True)
                  ''reg/T1_corrected_canonical.nii.gz'' ''reg/FLAIR.nii.gz''
                  ''reg/mag_canonical.nii.gz'' ''reg/mask.nii.gz'' world_without_mask))
     = registration_complete ''reg/mag_canonical.nii.gz'' ''reg/T1_corrected_canonical.nii.gz''
         ''reg/T1_corrected_canonical.nii_toMag.nii.gz''
         ''reg/T1_corrected_canonical.nii_toMag_transform.tfm'' \<and>
   files (snd (main_registration_pipeline (example_sitk True)
                 ''reg/T1_corrected_canonical.nii.gz'' ''reg/FLAIR.nii.gz''
                 ''reg/mag_canonical.nii.gz'' ''reg/mask.nii.gz'' world_without_mask))
         ''reg/FLAIR.nii_toMag.nii.gz'' = None"
  by (simp add: main_registration_pipeline_def apply_transform_to_mask_def
        register_t1_to_magnitude_def world_without_mask_def example_world_def
        example_sitk_def ReadImage_def splitext_def rfind_def isfile_def
        ImageRegistrationMethod_Execute_def resampler_Execute_def
        ResampleImageFilter_Execute_def WriteImage_def WriteTransform_def example_image_def
        Let_def)

text \<open>
  C5 (amended).  The registration draws its metric samples at random from one percent of
  the fixed image and is configured without a seed: a run executes at most one registration,
  and the seed of that registration is unset.  Neither the seed nor the sampling percentage
  is a parameter of \<^verbatim>\<open>register_t1_to_magnitude\<close>, so no caller can fix them.
\<close>

theorem registration_sampling_has_no_seed:
  "registration_seeds
     (new_calls w (snd (register_t1_to_magnitude lib t1_path magnitude_path out_matrix
                          out_registered rigid w))) \<in> {[], [None]} \<and>
   MetricSamplingSeed (registration_method initial) = None \<and>
   MetricSamplingStrategy (registration_method initial) = RANDOM \<and>
   MetricSamplingPercentage (registration_method initial) = 1 / 100"
proof -
  have "registration_seeds
     (new_calls w (snd (register_t1_to_magnitude lib t1_path magnitude_path out_matrix
                          out_registered rigid w))) \<in> {[], [None]}"
    using register_t1_to_magnitude_trace [of lib t1_path magnitude_path out_matrix
        out_registered rigid w]
    by (elim disjE exE conjE) (simp_all add: new_calls_def registration_method_def)
  then show ?thesis by (simp add: registration_method_def)
qed

theorem registration_sampling_has_no_seed_witness:
  "registration_seeds
     (new_calls example_world
        (snd (register_t1_to_magnitude (example_sitk True) ''reg/T1_corrected_canonical.nii.gz''
                ''reg/mag_canonical.nii.gz'' None None False example_world))) \<in> {[], [None]}"
  by (rule registration_sampling_has_no_seed [THEN conjunct1])

text \<open>
  The claim as stated fails: on the example files the one registration that is executed
  was given no seed, so its random sample is not drawn under an explicit seed.
\<close>

theorem registration_sampling_seed_counterexample:
  "registration_seeds
     (new_calls example_world
        (snd (register_t1_to_magnitude (example_sitk True) ''reg/T1_corrected_canonical.nii.gz''
                ''reg/mag_canonical.nii.gz'' None None False example_world))) = [None]"
  by (simp add: register_t1_to_magnitude_def example_world_def
        example_sitk_def ReadImage_def splitext_def rfind_def
        ImageRegistrationMethod_Execute_def resampler_Execute_def
        ResampleImageFilter_Execute_def WriteImage_def WriteTransform_def example_image_def
        new_calls_def registration_method_def Let_def)

text \<open>
  C6.  The transform handed to the optimiser is the centred initialisation of the fixed
  and moving images, for the rigid and the affine case alike: its centre is the geometric
  centre of the fixed image and its translation the offset between the two centres.  For a
  moving image that is the fixed image shifted by an offset (same size, spacing and
  direction), the translation is that offset exactly, hence within one voxel spacing.
\<close>

theorem initial_transform_aligns_centers:
  assumes "Size moving = Size fixed" and "Spacing moving = Spacing fixed"
    and "Direction moving = Direction fixed"
    and "Origin moving = map2 (+) (Origin fixed) offset"
    and "length (Origin fixed) = length offset" and "length (Direction fixed) = length offset"
  shows "InitialTransform (registration_method (initial_transform rigid fixed moving))
           = initial_transform rigid fixed moving \<and>
         Translation (initial_transform rigid fixed moving) = offset \<and>
         Center (initial_transform rigid fixed moving) = geometric_center fixed"
proof -
  let ?v = "mat_vec (Direction fixed)
              (map2 (*) (Spacing fixed) (map (\<lambda>n. (real n - 1) / 2) (Size fixed)))"
  have f: "geometric_center fixed = map2 (+) (Origin fixed) ?v"
    by (simp add: geometric_center_def TransformContinuousIndexToPhysicalPoint_def)
  have m: "geometric_center moving = map2 (+) (map2 (+) (Origin fixed) offset) ?v"
    using assms by (simp add: geometric_center_def TransformContinuousIndexToPhysicalPoint_def)
  have "map2 (-) (geometric_center moving) (geometric_center fixed) = offset"
    unfolding f m using assms by (intro offset_of_shifted) (simp_all add: length_mat_vec)
  then show ?thesis
    by (simp add: initial_transform_def CenteredTransformInitializer_def)
qed

theorem initial_transform_aligns_centers_witness:
  "Translation (initial_transform False (example_image 5)
                  ((example_image 5)\<lparr>Origin := [5, 0, 0]\<rparr>)) = [5, 0, 0]"
  using initial_transform_aligns_centers
          [where moving = "(example_image 5)\<lparr>Origin := [5, 0, 0]\<rparr>"
             and fixed = "example_image 5" and offset = "[5, 0, 0]" and rigid = False]
  by (simp add: example_image_def)

text \<open>
  C7.  The output of a resampling lies on the grid of the reference image (its size,
  origin, spacing and direction), whatever the grid of the source, and every voxel whose
  coordinate in the source falls outside the source holds the fill value.  Every resampling
  of the scripts sets the fill value 0.  A resampling fails only when source and reference
  have different dimensions.
\<close>

theorem resampled_onto_reference_grid:
  "(case ResampleImageFilter_Execute lib resampler src of
      Inl e \<Rightarrow> length (Size src) \<noteq> length (Size (ReferenceImage resampler))
    | Inr out \<Rightarrow>
        Size out = Size (ReferenceImage resampler) \<and>
        Origin out = Origin (ReferenceImage resampler) \<and>
        Spacing out = Spacing (ReferenceImage resampler) \<and>
        Direction out = Direction (ReferenceImage resampler) \<and>
        (\<forall>idx. \<not> IsInsideBuffer src
                    (SourceContinuousIndex lib (ReferenceImage resampler)
                       (ResampleTransform resampler) src idx) \<longrightarrow>
               Pixel out idx = DefaultPixelValue resampler)) \<and>
   list_all fills_with_zero
     (new_calls w (snd (main_registration_pipeline lib t1_path flair magnitude_path mask_path w))) \<and>
   list_all fills_with_zero
     (new_calls w (snd (register_t1_to_magnitude lib t1_path magnitude_path out_matrix
                          out_registered rigid w))) \<and>
   list_all fills_with_zero
     (new_calls w (snd (apply_transform_to_mask lib mask_path magnitude_path transform_matrix
                          out_mask w))) \<and>
   list_all fills_with_zero
     (new_calls w (snd (apply_transform_to_flair lib flair magnitude_path transform_matrix
                          out_flair w))) \<and>
   list_all fills_with_zero
     (new_calls w (snd (mspace_apply_transform_to_mask lib mask_path magnitude_path
                          transform_matrix out_mask w))) \<and>
   list_all fills_with_zero
     (new_calls w (snd (transform_lesion_labels_in_registered_folder lib mask_path folder_name
                          registered_folder w)))"
proof -
  have "case ResampleImageFilter_Execute lib resampler src of
      Inl e \<Rightarrow> length (Size src) \<noteq> length (Size (ReferenceImage resampler))
    | Inr out \<Rightarrow>
        Size out = Size (ReferenceImage resampler) \<and>
        Origin out = Origin (ReferenceImage resampler) \<and>
        Spacing out = Spacing (ReferenceImage resampler) \<and>
        Direction out = Direction (ReferenceImage resampler) \<and>
        (\<forall>idx. \<not> IsInsideBuffer src
                    (SourceContinuousIndex lib (ReferenceImage resampler)
                       (ResampleTransform resampler) src idx) \<longrightarrow>
               Pixel out idx = DefaultPixelValue resampler)"
    by (simp add: ResampleImageFilter_Execute_def Let_def)
  then show ?thesis
    by (intro conjI fills_with_zero_trace main_registration_pipeline_extends
        register_t1_to_magnitude_extends apply_transform_to_mask_extends
        apply_transform_to_flair_extends transform_lesion_labels_in_registered_folder_extends
        apply_transform_to_mask_extends [folded mspace_apply_transform_to_mask_eq])
qed

theorem resampled_onto_reference_grid_witness:
  "\<exists>out. ResampleImageFilter_Execute (example_sitk True)
            \<lparr>ReferenceImage = example_image 5, ResampleInterpolator = sitkNearestNeighbor,
             DefaultPixelValue = 0,
             ResampleTransform = (new_AffineTransform 3)\<lparr>Translation := [5, 0, 0]\<rparr>\<rparr>
            ((example_image 1)\<lparr>Spacing := [2, 2, 2]\<rparr>) = Inr out \<and>
         Spacing out = [1, 1, 1] \<and> Pixel out [1, 0, 0] = 0"
proof -
  let ?resampler = "\<lparr>ReferenceImage = example_image 5, ResampleInterpolator = sitkNearestNeighbor,
             DefaultPixelValue = 0,
             ResampleTransform = (new_AffineTransform 3)\<lparr>Translation := [5, 0, 0]\<rparr>\<rparr>"
  let ?src = "(example_image 1)\<lparr>Spacing := [2, 2, 2]\<rparr>"
  have "\<exists>out. ResampleImageFilter_Execute (example_sitk True) ?resampler ?src = Inr out"
    by (simp add: ResampleImageFilter_Execute_def example_image_def Let_def)
  then obtain out where
    out: "ResampleImageFilter_Execute (example_sitk True) ?resampler ?src = Inr out" ..
  have outside: "\<not> IsInsideBuffer ?src
      (SourceContinuousIndex (example_sitk True) (ReferenceImage ?resampler)
         (ResampleTransform ?resampler) ?src [1, 0, 0])"
    by (simp add: IsInsideBuffer_def example_sitk_def example_image_def round_half_down_def)
  from resampled_onto_reference_grid
         [where lib = "example_sitk True" and resampler = ?resampler and src = ?src,
          THEN conjunct1]
    out outside
  have "Spacing out = Spacing (example_image 5) \<and> Pixel out [1, 0, 0] = 0"
    by simp
  with out show ?thesis by (simp add: example_image_def)
qed

text \<open>
  C8 (amended).  The convergence flag of the optimiser never reaches the caller:
  \<^verbatim>\<open>register_t1_to_magnitude\<close> returns the two output paths only, and its result, the files
  it writes and the lines it prints are the same whatever the flag.  Whenever it returns it
  has stored the transform that the optimiser returned under the transform path and has
  printed the lines of a completed registration.
\<close>

theorem convergence_flag_is_ignored:
  "register_t1_to_magnitude
     (lib\<lparr>RegistrationExecute :=
            (\<lambda>m fixed moving.
               case RegistrationExecute lib m fixed moving of
                 Inl msg \<Rightarrow> Inl msg
               | Inr (final, converged) \<Rightarrow> Inr (final, flag))\<rparr>)
     t1_path magnitude_path out_matrix out_registered rigid w
   = register_t1_to_magnitude lib t1_path magnitude_path out_matrix out_registered rigid w \<and>
   (\<forall>paths w'.
      register_t1_to_magnitude lib t1_path magnitude_path out_matrix out_registered rigid w
        = (Inr paths, w') \<longrightarrow>
      stdout w' = stdout w @
        registration_complete magnitude_path t1_path (fst paths) (snd paths) \<and>
      (\<exists>fixed moving final_transform converged.
         ReadImage lib w magnitude_path sitkFloat32 = Inr fixed \<and>
         ReadImage lib w t1_path sitkFloat32 = Inr moving \<and>
         RegistrationExecute lib (registration_method (initial_transform rigid fixed moving))
           fixed moving = Inr (final_transform, converged) \<and>
         files w' (snd paths) = Some (TransformFile final_transform)))"
proof (intro conjI allI impI)
  show "register_t1_to_magnitude
     (lib\<lparr>RegistrationExecute :=
            (\<lambda>m fixed moving.
               case RegistrationExecute lib m fixed moving of
                 Inl msg \<Rightarrow> Inl msg
               | Inr (final, converged) \<Rightarrow> Inr (final, flag))\<rparr>)
     t1_path magnitude_path out_matrix out_registered rigid w
   = register_t1_to_magnitude lib t1_path magnitude_path out_matrix out_registered rigid w"
    unfolding register_t1_to_magnitude_def ReadImage_other_optimiser
        resampler_Execute_other_optimiser WriteImage_other_optimiser
        WriteTransform_other_optimiser ImageRegistrationMethod_Execute_flag
    by (rule refl)
next
  fix paths w'
  assume "register_t1_to_magnitude lib t1_path magnitude_path out_matrix out_registered rigid w
        = (Inr paths, w')"
  then have "register_t1_to_magnitude lib t1_path magnitude_path out_matrix out_registered rigid w
        = (Inr (fst paths, snd paths), w')"
    by simp
  then have run: "register_t1_to_magnitude lib t1_path magnitude_path out_matrix out_registered
                    rigid w = (Inr (fst paths, snd paths), w')" .
  from run show "stdout w' = stdout w @
        registration_complete magnitude_path t1_path (fst paths) (snd paths)"
    by (elim register_success) simp
  from run show "\<exists>fixed moving final_transform converged.
         ReadImage lib w magnitude_path sitkFloat32 = Inr fixed \<and>
         ReadImage lib w t1_path sitkFloat32 = Inr moving \<and>
         RegistrationExecute lib (registration_method (initial_transform rigid fixed moving))
           fixed moving = Inr (final_transform, converged) \<and>
         files w' (snd paths) = Some (TransformFile final_transform)"
    by (elim register_success) auto
qed

theorem convergence_flag_is_ignored_witness:
  "register_t1_to_magnitude (example_sitk False) ''reg/T1_corrected_canonical.nii.gz''
     ''reg/mag_canonical.nii.gz'' None None False example_world
   = register_t1_to_magnitude (example_sitk True) ''reg/T1_corrected_canonical.nii.gz''
     ''reg/mag_canonical.nii.gz'' None None False example_world \<and>
   (\<exists>fixed moving final_transform.
      RegistrationExecute (example_sitk False)
        (registration_method (initial_transform False fixed moving)) fixed moving
        = Inr (final_transform, False) \<and>
      files (snd (register_t1_to_magnitude (example_sitk False)
                    ''reg/T1_corrected_canonical.nii.gz''
                    ''reg/mag_canonical.nii.gz'' None None False example_world))
            ''reg/T1_corrected_canonical.nii_toMag_transform.tfm''
        = Some (TransformFile final_transform))"
proof
  show "register_t1_to_magnitude (example_sitk False) ''reg/T1_corrected_canonical.nii.gz''
     ''reg/mag_canonical.nii.gz'' None None False example_world
   = register_t1_to_magnitude (example_sitk True) ''reg/T1_corrected_canonical.nii.gz''
     ''reg/mag_canonical.nii.gz'' None None False example_world"
    using convergence_flag_is_ignored
            [where lib = "example_sitk True" and flag = False, THEN conjunct1]
    by (simp add: example_sitk_def)
  let ?run = "register_t1_to_magnitude (example_sitk False)
                ''reg/T1_corrected_canonical.nii.gz''
                ''reg/mag_canonical.nii.gz'' None None False example_world"
  have "fst ?run = Inr (''reg/T1_corrected_canonical.nii_toMag.nii.gz'',
                        ''reg/T1_corrected_canonical.nii_toMag_transform.tfm'')"
    by (simp add: register_t1_to_magnitude_def example_world_def
        example_sitk_def ReadImage_def splitext_def rfind_def
        ImageRegistrationMethod_Execute_def resampler_Execute_def
        ResampleImageFilter_Execute_def WriteImage_def WriteTransform_def example_image_def
        Let_def)
  then have run: "?run = (Inr (''reg/T1_corrected_canonical.nii_toMag.nii.gz'',
                        ''reg/T1_corrected_canonical.nii_toMag_transform.tfm''), snd ?run)"
    by (simp add: prod_eq_iff)
  from convergence_flag_is_ignored
         [where lib = "example_sitk False", THEN conjunct2, rule_format, OF run,
          THEN conjunct2]
  obtain fixed moving final_transform converged where
    exec: "RegistrationExecute (example_sitk False)
        (registration_method (initial_transform False fixed moving)) fixed moving
        = Inr (final_transform, converged)" and
    stored: "files (snd ?run) ''reg/T1_corrected_canonical.nii_toMag_transform.tfm''
        = Some (TransformFile final_transform)"
    by auto
  from exec have "converged = False" by (simp add: example_sitk_def)
  with exec stored show "\<exists>fixed moving final_transform.
      RegistrationExecute (example_sitk False)
        (registration_method (initial_transform False fixed moving)) fixed moving
        = Inr (final_transform, False) \<and>
      files (snd ?run) ''reg/T1_corrected_canonical.nii_toMag_transform.tfm''
        = Some (TransformFile final_transform)"
    by blast
qed

text \<open>
  The claim as stated fails: with an optimiser that reports that the iteration cap was hit
  before the tolerance was met, the registration returns its two paths, stores the
  transform and prints the lines of a completed registration, and nothing else.
\<close>

theorem unconverged_registration_counterexample:
  "RegistrationExecute (example_sitk False) (registration_method (new_AffineTransform 3))
     (example_image 5) (example_image 7) = Inr (new_AffineTransform 3, False) \<and>
   fst (register_t1_to_magnitude (example_sitk False) ''reg/T1_corrected_canonical.nii.gz''
          ''reg/mag_canonical.nii.gz'' None None False example_world)
     = Inr (''reg/T1_corrected_canonical.nii_toMag.nii.gz'',
            ''reg/T1_corrected_canonical.nii_toMag_transform.tfm'') \<and>
   stdout (snd (register_t1_to_magnitude (example_sitk False)
                  ''reg/T1_corrected_canonical.nii.gz''
                  ''reg/mag_canonical.nii.gz'' None None False example_world))
     = registration_complete ''reg/mag_canonical.nii.gz'' ''reg/T1_corrected_canonical.nii.gz''
         ''reg/T1_corrected_canonical.nii_toMag.nii.gz''
         ''reg/T1_corrected_canonical.nii_toMag_transform.tfm'' \<and>
   isfile (snd (register_t1_to_magnitude (example_sitk False)
                  ''reg/T1_corrected_canonical.nii.gz''
                  ''reg/mag_canonical.nii.gz'' None None False example_world))
          ''reg/T1_corrected_canonical.nii_toMag_transform.tfm''"
  by (simp add: register_t1_to_magnitude_def example_world_def
        example_sitk_def ReadImage_def splitext_def rfind_def isfile_def
        ImageRegistrationMethod_Execute_def resampler_Execute_def
        ResampleImageFilter_Execute_def WriteImage_def WriteTransform_def example_image_def
        Let_def)

text \<open>
  C9.  Resampling with nearest-neighbour interpolation never introduces a value: whatever
  the source image, the reference grid and the transform, the values of the output are
  values of the source or the fill value.  For both copies of
  \<^verbatim>\<open>apply_transform_to_mask\<close> this means that the mask written is made of values of the
  mask as it was read and of 0.
\<close>

theorem nearest_neighbour_preserves_labels:
  "(\<forall>out. ResampleImageFilter_Execute lib resampler src = Inr out \<and>
          ResampleInterpolator resampler = sitkNearestNeighbor \<longrightarrow>
          label_values out \<subseteq> insert (DefaultPixelValue resampler) (label_values src)) \<and>
   (\<forall>p w'. apply_transform_to_mask lib mask_path magnitude_path transform_matrix out_mask w
             = (Inr p, w') \<longrightarrow>
      (\<exists>mask_image resampled_mask.
         ReadImage lib w mask_path sitkUInt8 = Inr mask_image \<and>
         files w' p = Some (ImageFile resampled_mask) \<and>
         label_values resampled_mask \<subseteq> insert 0 (label_values mask_image))) \<and>
   (\<forall>p w'. mspace_apply_transform_to_mask lib mask_path magnitude_path transform_matrix out_mask w
             = (Inr p, w') \<longrightarrow>
      (\<exists>mask_image resampled_mask.
         ReadImage lib w mask_path sitkUInt8 = Inr mask_image \<and>
         files w' p = Some (ImageFile resampled_mask) \<and>
         label_values resampled_mask \<subseteq> insert 0 (label_values mask_image)))"
proof -
  have general: "label_values out \<subseteq> insert (DefaultPixelValue resampler) (label_values src)"
    if "ResampleImageFilter_Execute lib resampler src = Inr out"
      "ResampleInterpolator resampler = sitkNearestNeighbor" for out
    using that by (rule nearest_neighbour_labels)
  have written: "\<exists>mask_image resampled_mask.
         ReadImage lib w mask_path sitkUInt8 = Inr mask_image \<and>
         files w' p = Some (ImageFile resampled_mask) \<and>
         label_values resampled_mask \<subseteq> insert 0 (label_values mask_image)"
    if run: "apply_transform_to_mask lib mask_path magnitude_path transform_matrix out_mask w
             = (Inr p, w')" for p w'
  proof -
    from run obtain fixed mask_image T resampled where
      rd: "ReadImage lib w mask_path sitkUInt8 = Inr mask_image" and
      rs: "ResampleImageFilter_Execute lib
             \<lparr>ReferenceImage = fixed, ResampleInterpolator = sitkNearestNeighbor,
              DefaultPixelValue = 0, ResampleTransform = T\<rparr> mask_image = Inr resampled" and
      fs: "files w' = (files w)(p \<mapsto> ImageFile resampled)"
      by (elim apply_transform_to_mask_success) simp
    from nearest_neighbour_labels [OF rs]
    have "label_values resampled \<subseteq> insert 0 (label_values mask_image)" by simp
    with rd fs show ?thesis by auto
  qed
  from general written show ?thesis
    by (simp add: mspace_apply_transform_to_mask_eq)
qed

theorem nearest_neighbour_preserves_labels_witness:
  "\<exists>mask_image resampled_mask.
     ReadImage (example_sitk True)
       (snd (register_t1_to_magnitude (example_sitk True) ''reg/T1_corrected_canonical.nii.gz''
               ''reg/mag_canonical.nii.gz'' None None False example_world))
       ''reg/mask.nii.gz'' sitkUInt8 = Inr mask_image \<and>
     files (snd (apply_transform_to_mask (example_sitk True) ''reg/mask.nii.gz''
                   ''reg/mag_canonical.nii.gz''
                   ''reg/T1_corrected_canonical.nii_toMag_transform.tfm'' None
                   (snd (register_t1_to_magnitude (example_sitk True)
                           ''reg/T1_corrected_canonical.nii.gz''
                           ''reg/mag_canonical.nii.gz'' None None False example_world))))
       ''reg/mask.nii_toMag.nii.gz'' = Some (ImageFile resampled_mask) \<and>
     label_values resampled_mask \<subseteq> insert 0 (label_values mask_image)"
proof -
  let ?w1 = "snd (register_t1_to_magnitude (example_sitk True)
                    ''reg/T1_corrected_canonical.nii.gz''
                    ''reg/mag_canonical.nii.gz'' None None False example_world)"
  let ?run = "apply_transform_to_mask (example_sitk True) ''reg/mask.nii.gz''
                ''reg/mag_canonical.nii.gz''
                ''reg/T1_corrected_canonical.nii_toMag_transform.tfm'' None ?w1"
  have "fst ?run = Inr ''reg/mask.nii_toMag.nii.gz''"
    by (simp add: apply_transform_to_mask_def register_t1_to_magnitude_def example_world_def
        example_sitk_def ReadImage_def ReadTransform_def splitext_def rfind_def
        ImageRegistrationMethod_Execute_def resampler_Execute_def
        ResampleImageFilter_Execute_def WriteImage_def WriteTransform_def example_image_def
        Let_def)
  then have "?run = (Inr ''reg/mask.nii_toMag.nii.gz'', snd ?run)"
    by (simp add: prod_eq_iff)
  with nearest_neighbour_preserves_labels
         [where lib = "example_sitk True" and mask_path = "''reg/mask.nii.gz''"
            and magnitude_path = "''reg/mag_canonical.nii.gz''"
            and transform_matrix = "''reg/T1_corrected_canonical.nii_toMag_transform.tfm''"
            and out_mask = None and w = ?w1]
  show ?thesis by blast
qed

text \<open>
  C10.  For every T1 path ending in \<^verbatim>\<open>.nii.gz\<close>, with both output paths omitted, a
  registration that returns has stripped only the final \<^verbatim>\<open>.gz\<close>: the registered image
  is \<^verbatim>\<open><stem>.nii_toMag.nii.gz\<close> and the transform
  \<^verbatim>\<open><stem>.nii_toMag_transform.tfm\<close>.  When the T1 image is
  \<^verbatim>\<open>T1_corrected_canonical.nii.gz\<close> in a folder, the transform is written exactly where
  the lesion-label script looks for it in that folder, and the script's
  \<^verbatim>\<open>os.path.isfile\<close> test finds it.
\<close>

theorem default_output_names:
  assumes "register_t1_to_magnitude lib (stem @ ''.nii.gz'') magnitude_path None None rigid w
             = (Inr (out_registered, out_matrix), w')"
  shows "out_registered = stem @ ''.nii_toMag.nii.gz'' \<and>
         out_matrix = stem @ ''.nii_toMag_transform.tfm'' \<and>
         (\<forall>registered_folder.
            stem @ ''.nii.gz'' = join registered_folder ''T1_corrected_canonical.nii.gz'' \<longrightarrow>
            out_matrix = join registered_folder ''T1_corrected_canonical.nii_toMag_transform.tfm'' \<and>
            isfile w' (join registered_folder ''T1_corrected_canonical.nii_toMag_transform.tfm''))"
proof -
  from assms obtain registered T where
    r: "out_registered = fst (splitext (stem @ ''.nii.gz'')) @ ''_toMag.nii.gz''" and
    m: "out_matrix = fst (splitext (stem @ ''.nii.gz'')) @ ''_toMag_transform.tfm''" and
    w': "files w' = (files w)(out_registered \<mapsto> ImageFile registered, out_matrix \<mapsto> TransformFile T)"
    by (elim register_success) simp
  have names: "out_registered = stem @ ''.nii_toMag.nii.gz''"
    "out_matrix = stem @ ''.nii_toMag_transform.tfm''"
    using r m by (simp_all add: splitext_nii_gz)
  have written: "isfile w' out_matrix" by (simp add: isfile_def w')
  have "out_matrix = join folder ''T1_corrected_canonical.nii_toMag_transform.tfm''"
    if eq: "stem @ ''.nii.gz'' = join folder ''T1_corrected_canonical.nii.gz''" for folder
  proof -
    let ?pre = "if folder = '''' \<or> last folder = CHR ''/'' then folder else folder @ ''/''"
    have "stem @ ''.nii.gz'' = (?pre @ ''T1_corrected_canonical'') @ ''.nii.gz''"
      using eq by (simp add: join_relative)
    then have "stem = ?pre @ ''T1_corrected_canonical''"
      by (simp only: append_same_eq)
    then show ?thesis
      using names by (simp add: join_relative)
  qed
  with names written show ?thesis by auto
qed

theorem default_output_names_witness:
  "isfile (snd (register_t1_to_magnitude (example_sitk True)
                  (''reg/T1_corrected_canonical'' @ ''.nii.gz'') ''reg/mag_canonical.nii.gz''
                  None None False example_world))
          (join ''reg'' ''T1_corrected_canonical.nii_toMag_transform.tfm'')"
proof -
  let ?run = "register_t1_to_magnitude (example_sitk True)
                  (''reg/T1_corrected_canonical'' @ ''.nii.gz'') ''reg/mag_canonical.nii.gz''
                  None None False example_world"
  have "fst ?run = Inr (''reg/T1_corrected_canonical.nii_toMag.nii.gz'',
                        ''reg/T1_corrected_canonical.nii_toMag_transform.tfm'')"
    by (simp add: register_t1_to_magnitude_def example_world_def example_sitk_def ReadImage_def
        splitext_nii_gz [of "''reg/T1_corrected_canonical''", simplified]
        ImageRegistrationMethod_Execute_def resampler_Execute_def ResampleImageFilter_Execute_def
        WriteImage_def WriteTransform_def example_image_def Let_def)
  then have run: "?run = (Inr (''reg/T1_corrected_canonical.nii_toMag.nii.gz'',
                        ''reg/T1_corrected_canonical.nii_toMag_transform.tfm''), snd ?run)"
    by (simp add: prod_eq_iff)
  have "''reg/T1_corrected_canonical'' @ ''.nii.gz'' = join ''reg'' ''T1_corrected_canonical.nii.gz''"
    by (simp add: join_def)
  with default_output_names [OF run] show ?thesis by blast
qed

end
